theory Spec2Isabelle
  imports Main "HOL-Library.AList"
begin

section \<open>Canonical tree model\<close>

text \<open>
  Property values of a node (\<open>Record<string, any>\<close> in the source).  Functions and objects
  are compared by reference in the source, so each carries the token of its reference; an
  object also carries its own enumerable entries, which \<open>Object.assign\<close> reads.
\<close>

datatype pval =
    PUndef
  | PNull
  | PBool bool
  | PNum int
  | PStr string
  | PFun nat
  | PObj nat "(string \<times> string) list"

text \<open>
  The type of a node: a host tag, one of the two markers, or a component function.  A
  component function is a reference (its token) with the \<open>name\<close> the function carries.
\<close>

datatype ntype =
    TEXT_ELEMENT
  | Fragment
  | Host string
  | Function nat string

text \<open>
  \<open>props.children\<close> is kept apart from the other props; it is \<open>None\<close> when the
  property is absent (a component created without children).
\<close>

datatype vnode =
  VNode (vtype: ntype) (vkey: "string option") (vprops: "(string \<times> pval) list")
        (vchildren: "vnode list option")

definition childrenOf :: "vnode \<Rightarrow> vnode list" where
  "childrenOf n = (case vchildren n of None \<Rightarrow> [] | Some cs \<Rightarrow> cs)"

subsection \<open>Identity paths (elements.ts)\<close>

definition digitChar :: "nat \<Rightarrow> char" where
  "digitChar d = ''0123456789'' ! d"

fun showNat :: "nat \<Rightarrow> string" where
  "showNat n = (if n < 10 then [digitChar n] else showNat (n div 10) @ [digitChar (n mod 10)])"

declare showNat.simps [simp del]

text \<open>
  Modelled from the spec: the Text and Fragment markers of constants.ts are not strings and
  not functions ("a special Fragment marker, a special Text marker"), so \<open>createChildPath\<close>
  names them \<open>Unknown\<close>.  An absent or empty-string node type is falsy in the source.
\<close>

definition createChildPath :: "string \<Rightarrow> string option \<Rightarrow> nat \<Rightarrow> ntype option \<Rightarrow> string" where
  "createChildPath parentPath key index nodeType =
     (case key of
        Some k \<Rightarrow> parentPath @ ''.k'' @ k
      | None \<Rightarrow>
          (case nodeType of
             None \<Rightarrow> parentPath @ ''.i'' @ showNat index
           | Some (Host []) \<Rightarrow> parentPath @ ''.i'' @ showNat index
           | Some t \<Rightarrow>
               (let typeName =
                      (case t of
                         Host tag \<Rightarrow> tag
                       | Function _ name \<Rightarrow> (if name = [] then ''Component'' else name)
                       | _ \<Rightarrow> ''Unknown'')
                in parentPath @ ''.c'' @ typeName @ ''_'' @ showNat index)))"

section \<open>Instances and the process-wide context\<close>

datatype ikind = HOST | FRAGMENT | COMPONENT | TEXT

text \<open>
  An instance is modelled as a value.  The source mutates instance objects in place and
  hands the same object back; a value stands for the object as long as no object sits in
  two slots at once, which is what the reconciler produces when sibling keys are unique.
\<close>

datatype inst =
  Instance (ikind: ikind) (idom: "nat option") (inode: vnode)
           (ichildren: "inst option list") (ikey: "string option") (ipath: string)

text \<open>
  Values held in hook slots.  A slot is either a state value or an effect hook object
  \<open>{kind: "effect", deps, cleanup, effect}\<close>; closures (effect bodies and cleanups) are
  references.  \<open>Object.is\<close> on these values is equality: numbers are integers here (no
  NaN, no negative zero), objects and functions are their reference token.
\<close>

datatype hval =
    HUndef
  | HNull
  | HBool bool
  | HNum int
  | HStr string
  | HRef nat
  | HEffect (hdeps: "hval list option") (hcleanup: "nat option") (heffect: nat)

datatype dkind = DElement string | DText

text \<open>Calls into the render target, in the order they are issued.\<close>

datatype dom_op =
    CreateElement nat string
  | CreateTextNode nat pval
  | InsertBefore nat nat nat
  | AppendChild nat nat
  | RemoveChild nat nat
  | SetAttribute nat string pval
  | RemoveAttribute nat string
  | SetProperty nat string pval
  | DeleteProperty nat string
  | AddEventListener nat string pval
  | RemoveEventListener nat string pval
  | SetStyle nat string pval
  | SetCssText nat string
  | SetClassName nat pval
  | SetNodeValue nat pval

text \<open>Invocations of user closures, in the order they happen.\<close>

datatype call = CleanupCall nat | EffectCall nat

datatype task = RenderTask | FlushEffectsTask

datatype error = NotFoundError | TypeError | HookOutsideComponent | Thrown call | ComponentThrown nat

text \<open>
  The mutable state of the process: the render target (a forest of nodes with ordered
  children, the expando properties the source reads back, and the log of calls), the
  \<open>context\<close> object (hook store, cursor, reachability marker, active-path stack, pending
  effects, root), the scheduler's tasks, and the objects user code holds (refs).
  \<open>hstate\<close> is a JS \<open>Map\<close>: an association list in insertion order.
\<close>

record ctx =
  domKind :: "nat \<rightharpoonup> dkind"
  parentOf :: "nat \<rightharpoonup> nat"
  childNodes :: "nat \<Rightarrow> nat list"
  expando :: "nat \<Rightarrow> string \<rightharpoonup> pval"
  nextNodeId :: nat
  ops :: "dom_op list"
  hstate :: "(string \<times> hval list) list"
  hcursor :: "string \<rightharpoonup> nat"
  visited :: "string set"
  componentStack :: "string list"
  queue :: "(string \<times> nat) list"
  rootContainer :: "nat option"
  rootNode :: "vnode option"
  rootInstance :: "inst option"
  renderScheduled :: bool
  tasks :: "task list"
  calls :: "call list"
  refCurrent :: "pval \<rightharpoonup> nat"

text \<open>
  Outcome of a computation: it returns, it raises (the state reached when the exception
  left is kept: the process goes on with it), or the recursion bound of the model ran out
  (the source would still be running).
\<close>

datatype 'a result = Return 'a | Raise error ctx | OutOfFuel

definition bindR :: "'a result \<Rightarrow> ('a \<Rightarrow> 'b result) \<Rightarrow> 'b result" where
  "bindR m f = (case m of Return x \<Rightarrow> f x | Raise e c \<Rightarrow> Raise e c | OutOfFuel \<Rightarrow> OutOfFuel)"

text \<open>
  User code, the parameter of the whole development.  A component is called with the
  node (its props and children) and may use the hooks, so it reads and writes the context.
  An effect body returns a cleanup, returns something else, or throws; a cleanup returns or
  throws.  What a closure does to the store through a setter it captured is not part of the
  model: the closures are opaque and only their invocation is recorded.
\<close>

datatype effect_outcome = ReturnsCleanup nat | ReturnsNothing | Throws

record env =
  component :: "nat \<Rightarrow> vnode \<Rightarrow> ctx \<Rightarrow> (vnode option \<times> ctx) result"
  effectBody :: "nat \<Rightarrow> effect_outcome"
  cleanupThrows :: "nat \<Rightarrow> bool"

section \<open>Hook/state store (hooks.ts)\<close>

text \<open>
  Modelled from the spec: context.ts is absent.  The active path is the top of the
  active-path stack ("pushes the component's identity path onto an active-path stack, so
  nested hook calls know their target path"); a hook called with an empty stack is the
  contract violation of the spec, an error here.  The cursor of a path without one is 0 and
  its slot sequence is empty.
\<close>

definition currentPath :: "ctx \<Rightarrow> string result" where
  "currentPath c = (if componentStack c = [] then Raise HookOutsideComponent c
                    else Return (last (componentStack c)))"

definition currentCursor :: "ctx \<Rightarrow> string \<Rightarrow> nat" where
  "currentCursor c path = (case hcursor c path of None \<Rightarrow> 0 | Some n \<Rightarrow> n)"

definition currentHooks :: "ctx \<Rightarrow> string \<Rightarrow> hval list" where
  "currentHooks c path = (case map_of (hstate c) path of None \<Rightarrow> [] | Some hs \<Rightarrow> hs)"

text \<open>
  Modelled from the spec: utils (\<open>withEnqueue\<close>, \<open>enqueue\<close>) is absent.  "Any request to
  render while one is already pending for the current tick is a no-op"; otherwise the
  render is queued as a deferred unit of work.
\<close>

definition enqueue :: "task \<Rightarrow> ctx \<Rightarrow> ctx" where
  "enqueue t c = c\<lparr>tasks := tasks c @ [t]\<rparr>"

definition enqueueRender :: "ctx \<Rightarrow> ctx" where
  "enqueueRender c = (if renderScheduled c then c
                      else enqueue RenderTask (c\<lparr>renderScheduled := True\<rparr>))"

text \<open>Reading and writing a JS array by index: a read out of range is \<open>undefined\<close>, a
  write out of range extends the array.\<close>

definition slotAt :: "hval list \<Rightarrow> nat \<Rightarrow> hval" where
  "slotAt hs i = (if i < length hs then hs ! i else HUndef)"

definition setSlot :: "hval list \<Rightarrow> nat \<Rightarrow> hval \<Rightarrow> hval list" where
  "setSlot hs i v = (if i < length hs then hs[i := v]
                     else hs @ replicate (i - length hs) HUndef @ [v])"

text \<open>The argument of \<open>useState\<close>: a value, or a thunk (given by the value it returns).
  The argument of a setter: a value, or an updater over the previous value.\<close>

datatype init = Initial hval | Lazy hval

datatype update = Next hval | Updater "hval \<Rightarrow> hval"

text \<open>A setter is the closure over the path and the cursor of the call that made it.\<close>

definition useState :: "init \<Rightarrow> ctx \<Rightarrow> ((hval \<times> (string \<times> nat)) \<times> ctx) result" where
  "useState initialValue c =
     bindR (currentPath c) (\<lambda>path.
       let cursor = currentCursor c path;
           hooks = currentHooks c path;
           value = (case initialValue of Initial v \<Rightarrow> v | Lazy v \<Rightarrow> v);
           (hooks1, c1) =
              (if cursor \<ge> length hooks
               then (hooks @ [value], c\<lparr>hstate := AList.update path (hooks @ [value]) (hstate c)\<rparr>)
               else (hooks, c));
           currentValue = slotAt hooks1 cursor
       in Return ((currentValue, (path, cursor)), c1\<lparr>hcursor := (hcursor c1)(path \<mapsto> cursor + 1)\<rparr>))"

definition setState :: "string \<times> nat \<Rightarrow> update \<Rightarrow> ctx \<Rightarrow> ctx" where
  "setState setter nextValue c =
     (let path = fst setter; cursor = snd setter;
          hooks = (case map_of (hstate c) path of None \<Rightarrow> [] | Some hs \<Rightarrow> hs);
          currentValue = slotAt hooks cursor;
          newValue = (case nextValue of Next v \<Rightarrow> v | Updater f \<Rightarrow> f currentValue)
      in if currentValue = newValue then c
         else enqueueRender (c\<lparr>hstate := AList.update path (setSlot hooks cursor newValue) (hstate c)\<rparr>))"

text \<open>
  Modelled from the spec: \<open>shallowEquals\<close> of utils is absent; on dependency lists it is
  the "ordered shallow element comparison" (a missing previous list is never equal).
\<close>

definition shallowEquals :: "hval list option \<Rightarrow> hval list \<Rightarrow> bool" where
  "shallowEquals prev deps = (case prev of None \<Rightarrow> False | Some ps \<Rightarrow> ps = deps)"

definition useEffect :: "nat \<Rightarrow> hval list option \<Rightarrow> ctx \<Rightarrow> (unit \<times> ctx) result" where
  "useEffect effect deps c =
     bindR (currentPath c) (\<lambda>path.
       let cursor = currentCursor c path;
           hooks = currentHooks c path;
           prevHook = (if cursor < length hooks
                       then (case hooks ! cursor of HEffect d cl e \<Rightarrow> Some (d, cl) | _ \<Rightarrow> None)
                       else None);
           shouldRun = (case prevHook of None \<Rightarrow> True
                        | Some (d, cl) \<Rightarrow>
                            (case deps of None \<Rightarrow> True | Some ds \<Rightarrow> \<not> shallowEquals d ds));
           effectHook = HEffect deps (case prevHook of None \<Rightarrow> None | Some (d, cl) \<Rightarrow> cl) effect;
           hooks1 = (if cursor \<ge> length hooks then hooks @ [effectHook]
                     else hooks[cursor := effectHook]);
           c1 = c\<lparr>hstate := AList.update path hooks1 (hstate c)\<rparr>;
           c2 = (if shouldRun then c1\<lparr>queue := queue c1 @ [(path, cursor)]\<rparr> else c1)
       in Return ((), c2\<lparr>hcursor := (hcursor c2)(path \<mapsto> cursor + 1)\<rparr>))"

text \<open>Calling a user closure records the call, whether it returns or throws.\<close>

definition callCleanup :: "env \<Rightarrow> nat \<Rightarrow> ctx \<Rightarrow> ctx result" where
  "callCleanup E cl c =
     (let c1 = c\<lparr>calls := calls c @ [CleanupCall cl]\<rparr>
      in if cleanupThrows E cl then Raise (Thrown (CleanupCall cl)) c1 else Return c1)"

definition callEffect :: "env \<Rightarrow> nat \<Rightarrow> ctx \<Rightarrow> (nat option \<times> ctx) result" where
  "callEffect E e c =
     (let c1 = c\<lparr>calls := calls c @ [EffectCall e]\<rparr>
      in case effectBody E e of
           Throws \<Rightarrow> Raise (Thrown (EffectCall e)) c1
         | ReturnsCleanup cl \<Rightarrow> Return (Some cl, c1)
         | ReturnsNothing \<Rightarrow> Return (None, c1))"

text \<open>\<open>cleanupUnusedHooks\<close>: the inner loop over the slots of one path, the outer loop over
  the entries of the store, then \<open>visited.clear()\<close>.\<close>

fun cleanupSlots :: "env \<Rightarrow> hval list \<Rightarrow> ctx \<Rightarrow> ctx result" where
  "cleanupSlots E [] c = Return c"
| "cleanupSlots E (hook # rest) c =
     (case hook of
        HEffect d (Some cl) e \<Rightarrow> bindR (callCleanup E cl c) (cleanupSlots E rest)
      | _ \<Rightarrow> cleanupSlots E rest c)"

fun cleanupEntries :: "env \<Rightarrow> (string \<times> hval list) list \<Rightarrow> ctx \<Rightarrow> ctx result" where
  "cleanupEntries E [] c = Return c"
| "cleanupEntries E ((path, hooksArray) # rest) c =
     (if path \<notin> visited c
      then bindR (cleanupSlots E hooksArray c) (\<lambda>c1.
             cleanupEntries E rest
               (c1\<lparr>hstate := AList.delete path (hstate c1), hcursor := (hcursor c1)(path := None)\<rparr>))
      else cleanupEntries E rest c)"

definition cleanupUnusedHooks :: "env \<Rightarrow> ctx \<Rightarrow> ctx result" where
  "cleanupUnusedHooks E c =
     bindR (cleanupEntries E (hstate c) c) (\<lambda>c1. Return (c1\<lparr>visited := {}\<rparr>))"

section \<open>Effect flush (render.ts)\<close>

text \<open>
  One turn of the \<open>while\<close> loop of \<open>flushEffects\<close>, after \<open>queue.shift()\<close>.  The test
  \<open>hook && "kind" in hook\<close> raises a TypeError on a truthy primitive.
\<close>

definition truthyH :: "hval \<Rightarrow> bool" where
  "truthyH v = (case v of HUndef \<Rightarrow> False | HNull \<Rightarrow> False | HBool b \<Rightarrow> b
                | HNum n \<Rightarrow> n \<noteq> 0 | HStr s \<Rightarrow> s \<noteq> [] | _ \<Rightarrow> True)"

definition flushEntry :: "env \<Rightarrow> string \<times> nat \<Rightarrow> ctx \<Rightarrow> ctx result" where
  "flushEntry E entry c =
     (let path = fst entry; cursor = snd entry in
      case map_of (hstate c) path of
        None \<Rightarrow> Return c
      | Some hooks \<Rightarrow>
          (case slotAt hooks cursor of
             HEffect d cl e \<Rightarrow>
               bindR (case cl of None \<Rightarrow> Return c | Some k \<Rightarrow> callCleanup E k c) (\<lambda>c1.
               bindR (callEffect E e c1) (\<lambda>(cleanup, c2).
                 Return (c2\<lparr>hstate := AList.update path (hooks[cursor := HEffect d cleanup e]) (hstate c2)\<rparr>)))
           | HRef r \<Rightarrow> Return c
           | v \<Rightarrow> (if truthyH v then Raise TypeError c else Return c)))"

fun flushQueue :: "env \<Rightarrow> (string \<times> nat) list \<Rightarrow> ctx \<Rightarrow> ctx result" where
  "flushQueue E [] c = Return c"
| "flushQueue E (entry # rest) c =
     bindR (flushEntry E entry (c\<lparr>queue := rest\<rparr>)) (flushQueue E rest)"

definition flushEffects :: "env \<Rightarrow> ctx \<Rightarrow> ctx result" where
  "flushEffects E c = flushQueue E (queue c) c"

section \<open>Render target\<close>

text \<open>
  The render-target capability set of the host environment, on the node forest of the
  context.  \<open>insertBefore\<close> raises when the reference node is not a child of the parent,
  as the DOM does; inserting a node that is already placed moves it.
\<close>

fun afterIn :: "nat \<Rightarrow> nat list \<Rightarrow> nat option" where
  "afterIn n (x # y # rest) = (if x = n then Some y else afterIn n (y # rest))"
| "afterIn n _ = None"

fun beforeIn :: "nat \<Rightarrow> nat list \<Rightarrow> nat option" where
  "beforeIn n (x # y # rest) = (if y = n then Some x else beforeIn n (y # rest))"
| "beforeIn n _ = None"

fun insertBeforeIn :: "nat \<Rightarrow> nat \<Rightarrow> nat list \<Rightarrow> nat list" where
  "insertBeforeIn n a [] = [n]"
| "insertBeforeIn n a (x # rest) = (if x = a then n # x # rest else x # insertBeforeIn n a rest)"

definition nextSibling :: "ctx \<Rightarrow> nat \<Rightarrow> nat option" where
  "nextSibling c n = (case parentOf c n of None \<Rightarrow> None | Some p \<Rightarrow> afterIn n (childNodes c p))"

definition previousSibling :: "ctx \<Rightarrow> nat \<Rightarrow> nat option" where
  "previousSibling c n = (case parentOf c n of None \<Rightarrow> None | Some p \<Rightarrow> beforeIn n (childNodes c p))"

definition isElement :: "ctx \<Rightarrow> nat \<Rightarrow> bool" where
  "isElement c n = (case domKind c n of Some (DElement tag) \<Rightarrow> True | _ \<Rightarrow> False)"

definition firstElementChild :: "ctx \<Rightarrow> nat \<Rightarrow> nat option" where
  "firstElementChild c p = find (isElement c) (childNodes c p)"

definition logOp :: "dom_op \<Rightarrow> ctx \<Rightarrow> ctx" where
  "logOp op c = c\<lparr>ops := ops c @ [op]\<rparr>"

definition detach :: "nat \<Rightarrow> ctx \<Rightarrow> ctx" where
  "detach n c =
     (case parentOf c n of
        None \<Rightarrow> c
      | Some p \<Rightarrow> c\<lparr>childNodes := (childNodes c)(p := removeAll n (childNodes c p)),
                    parentOf := (parentOf c)(n := None)\<rparr>)"

definition createElement :: "string \<Rightarrow> ctx \<Rightarrow> nat \<times> ctx" where
  "createElement tag c =
     (let n = nextNodeId c
      in (n, logOp (CreateElement n tag)
               (c\<lparr>domKind := (domKind c)(n \<mapsto> DElement tag), nextNodeId := n + 1\<rparr>)))"

definition createTextNode :: "pval \<Rightarrow> ctx \<Rightarrow> nat \<times> ctx" where
  "createTextNode v c =
     (let n = nextNodeId c
      in (n, logOp (CreateTextNode n v)
               (c\<lparr>domKind := (domKind c)(n \<mapsto> DText), nextNodeId := n + 1\<rparr>)))"

definition appendChild :: "nat \<Rightarrow> nat \<Rightarrow> ctx \<Rightarrow> ctx" where
  "appendChild p n c =
     (let c1 = detach n c
      in logOp (AppendChild p n)
           (c1\<lparr>childNodes := (childNodes c1)(p := childNodes c1 p @ [n]),
                parentOf := (parentOf c1)(n \<mapsto> p)\<rparr>))"

definition insertBefore :: "nat \<Rightarrow> nat \<Rightarrow> nat \<Rightarrow> ctx \<Rightarrow> ctx result" where
  "insertBefore p n a c =
     (if parentOf c a \<noteq> Some p then Raise NotFoundError c
      else
        let ref = (if a = n then nextSibling c n else Some a);
            c1 = detach n c;
            kids = (case ref of None \<Rightarrow> childNodes c1 p @ [n]
                    | Some r \<Rightarrow> insertBeforeIn n r (childNodes c1 p))
        in Return (logOp (InsertBefore p n a)
                     (c1\<lparr>childNodes := (childNodes c1)(p := kids),
                          parentOf := (parentOf c1)(n \<mapsto> p)\<rparr>)))"

definition removeChild :: "nat \<Rightarrow> nat \<Rightarrow> ctx \<Rightarrow> ctx result" where
  "removeChild p n c =
     (if parentOf c n \<noteq> Some p then Raise NotFoundError c
      else Return (logOp (RemoveChild p n) (detach n c)))"

text \<open>Writing and deleting a JS property of a node; the source reads some of them back.\<close>

definition setProperty :: "nat \<Rightarrow> string \<Rightarrow> pval \<Rightarrow> ctx \<Rightarrow> ctx" where
  "setProperty n k v c =
     logOp (SetProperty n k v) (c\<lparr>expando := (expando c)(n := (expando c n)(k \<mapsto> v))\<rparr>)"

definition deleteProperty :: "nat \<Rightarrow> string \<Rightarrow> ctx \<Rightarrow> ctx" where
  "deleteProperty n k c =
     logOp (DeleteProperty n k) (c\<lparr>expando := (expando c)(n := (expando c n)(k := None))\<rparr>)"

definition getProperty :: "ctx \<Rightarrow> nat \<Rightarrow> string \<Rightarrow> pval" where
  "getProperty c n k = (case expando c n k of None \<Rightarrow> PUndef | Some v \<Rightarrow> v)"

section \<open>Host-tree property setters (dom.ts)\<close>

definition toLowerChar :: "char \<Rightarrow> char" where
  "toLowerChar ch = (let n = (of_char ch :: nat) in if 65 \<le> n \<and> n \<le> 90 then char_of (n + 32) else ch)"

definition normalizeEventName :: "string \<Rightarrow> string" where
  "normalizeEventName name = map toLowerChar (drop 2 name)"

definition isEventProp :: "string \<Rightarrow> bool" where
  "isEventProp name = (take 2 name = ''on'' \<and> length name > 2)"

definition truthy :: "pval \<Rightarrow> bool" where
  "truthy v = (case v of PUndef \<Rightarrow> False | PNull \<Rightarrow> False | PBool b \<Rightarrow> b
               | PNum n \<Rightarrow> n \<noteq> 0 | PStr s \<Rightarrow> s \<noteq> [] | _ \<Rightarrow> True)"

definition propGet :: "(string \<times> pval) list \<Rightarrow> string \<Rightarrow> pval" where
  "propGet props k = (case map_of props k of None \<Rightarrow> PUndef | Some v \<Rightarrow> v)"

definition propIn :: "string \<Rightarrow> (string \<times> pval) list \<Rightarrow> bool" where
  "propIn k props = (k \<in> fst ` set props)"

text \<open>\<open>Object.assign(dom.style, value)\<close>: one style write per own entry of the object.\<close>

definition assignStyle :: "nat \<Rightarrow> (string \<times> string) list \<Rightarrow> ctx \<Rightarrow> ctx" where
  "assignStyle n entries c = fold (\<lambda>(k, v). logOp (SetStyle n k (PStr v))) entries c"

text \<open>One turn of the loop of \<open>setDomProps\<close>.\<close>

definition setDomProp :: "nat \<Rightarrow> string \<times> pval \<Rightarrow> ctx \<Rightarrow> ctx" where
  "setDomProp el kv c =
     (let key = fst kv; value = snd kv in
      if key = ''children'' then c
      else if isEventProp key then
        (let eventName = normalizeEventName key;
             c1 = setProperty el (''__'' @ eventName) value c
         in if truthy value then logOp (AddEventListener el eventName value) c1 else c1)
      else
        (case (if key = ''style'' then value else PUndef) of
           PObj r entries \<Rightarrow> assignStyle el entries c
         | _ \<Rightarrow>
            if key = ''className'' then logOp (SetClassName el (if truthy value then value else PStr [])) c
            else if take 5 key = ''data-'' then logOp (SetAttribute el key value) c
            else if key = ''ref'' then c
            else
              (case value of
                 PBool b \<Rightarrow>
                   (if b then setProperty el key (PBool True) (logOp (SetAttribute el key (PStr [])) c)
                    else setProperty el key (PBool False) (logOp (RemoveAttribute el key) c))
               | _ \<Rightarrow>
                   (let c1 = setProperty el key value c
                    in if value \<noteq> PNull \<and> value \<noteq> PUndef then logOp (SetAttribute el key value) c1
                       else c1))))"

definition setDomProps :: "nat \<Rightarrow> (string \<times> pval) list \<Rightarrow> ctx \<Rightarrow> ctx" where
  "setDomProps el props c = fold (setDomProp el) props c"

text \<open>One turn of the first loop of \<open>updateDomProps\<close> (props that went away).\<close>

definition removeDomProp :: "nat \<Rightarrow> (string \<times> pval) list \<Rightarrow> (string \<times> pval) list \<Rightarrow> string \<Rightarrow> ctx \<Rightarrow> ctx" where
  "removeDomProp el prevProps nextProps key c =
     (if key = ''children'' then c
      else if propIn key nextProps then c
      else if isEventProp key then
        (let eventName = normalizeEventName key;
             prevHandler = getProperty c el (''__'' @ eventName)
         in if truthy prevHandler
            then deleteProperty el (''__'' @ eventName) (logOp (RemoveEventListener el eventName prevHandler) c)
            else c)
      else if key = ''style'' \<and> (case propGet prevProps key of PObj r es \<Rightarrow> True | PNull \<Rightarrow> True | _ \<Rightarrow> False)
        then logOp (SetCssText el []) c
      else if key = ''className'' then logOp (SetClassName el (PStr [])) c
      else if take 5 key = ''data-'' then logOp (RemoveAttribute el key) c
      else if (case propGet prevProps key of PBool b \<Rightarrow> True | _ \<Rightarrow> False)
        then setProperty el key (PBool False) (logOp (RemoveAttribute el key) c)
      else deleteProperty el key (logOp (RemoveAttribute el key) c))"

text \<open>One turn of the second loop of \<open>updateDomProps\<close> (props of the next node).\<close>

definition updateDomProp :: "nat \<Rightarrow> (string \<times> pval) list \<Rightarrow> string \<times> pval \<Rightarrow> ctx \<Rightarrow> ctx" where
  "updateDomProp el prevProps kv c =
     (let key = fst kv; value = snd kv; prevValue = propGet prevProps key in
      if key = ''children'' then c
      else if isEventProp key then
        (let eventName = normalizeEventName key;
             prevHandler = getProperty c el (''__'' @ eventName)
         in if prevHandler \<noteq> value then
              (let c1 = (if truthy prevHandler then logOp (RemoveEventListener el eventName prevHandler) c else c)
               in if truthy value
                  then setProperty el (''__'' @ eventName) value (logOp (AddEventListener el eventName value) c1)
                  else deleteProperty el (''__'' @ eventName) c1)
            else c)
      else
        (case (if key = ''style'' then value else PUndef) of
           PObj r entries \<Rightarrow>
             (let c1 = (case prevValue of
                          PObj r' prevEntries \<Rightarrow>
                            fold (\<lambda>styleKey. logOp (SetStyle el styleKey (PStr [])))
                                 (filter (\<lambda>styleKey. styleKey \<notin> fst ` set entries) (map fst prevEntries)) c
                        | _ \<Rightarrow> c)
              in assignStyle el entries c1)
         | _ \<Rightarrow>
            if key = ''className'' then
              (if prevValue \<noteq> value then logOp (SetClassName el (if truthy value then value else PStr [])) c else c)
            else if take 5 key = ''data-'' then
              (if prevValue \<noteq> value then logOp (SetAttribute el key value) c else c)
            else if key = ''ref'' then c
            else
              (case value of
                 PBool b \<Rightarrow>
                   (if prevValue \<noteq> value then
                      (if b then setProperty el key (PBool True) (logOp (SetAttribute el key (PStr [])) c)
                       else setProperty el key (PBool False) (logOp (RemoveAttribute el key) c))
                    else c)
               | _ \<Rightarrow>
                   (if prevValue \<noteq> value then
                      (let c1 = setProperty el key value c
                       in if value \<noteq> PNull \<and> value \<noteq> PUndef then logOp (SetAttribute el key value) c1
                          else logOp (RemoveAttribute el key) c1)
                    else c))))"

definition updateDomProps :: "nat \<Rightarrow> (string \<times> pval) list \<Rightarrow> (string \<times> pval) list \<Rightarrow> ctx \<Rightarrow> ctx" where
  "updateDomProps el prevProps nextProps c =
     fold (updateDomProp el prevProps) nextProps
       (fold (removeDomProp el prevProps nextProps) (map fst prevProps) c)"

text \<open>The render-target nodes of an instance, and the first of them.\<close>

fun getDomNodes :: "inst \<Rightarrow> nat list" and getDomNodesOfChildren :: "inst option list \<Rightarrow> nat list" where
  "getDomNodes (Instance kind el node children key path) =
     (if kind = FRAGMENT \<or> kind = COMPONENT then getDomNodesOfChildren children
      else (case el of Some d \<Rightarrow> [d] | None \<Rightarrow> []))"
| "getDomNodesOfChildren [] = []"
| "getDomNodesOfChildren (None # rest) = getDomNodesOfChildren rest"
| "getDomNodesOfChildren (Some child # rest) = getDomNodes child @ getDomNodesOfChildren rest"

fun getFirstDom :: "inst \<Rightarrow> nat option" and getFirstDomFromChildren :: "inst option list \<Rightarrow> nat option" where
  "getFirstDom (Instance kind el node children key path) =
     (case el of Some d \<Rightarrow> Some d | None \<Rightarrow> getFirstDomFromChildren children)"
| "getFirstDomFromChildren [] = None"
| "getFirstDomFromChildren (None # rest) = getFirstDomFromChildren rest"
| "getFirstDomFromChildren (Some child # rest) =
     (case getFirstDom child of Some d \<Rightarrow> Some d | None \<Rightarrow> getFirstDomFromChildren rest)"

text \<open>The loop shared by \<open>removeInstance\<close> and the removals of the reconciler: each node
  is removed only if its parent is still the expected one.\<close>

fun removeNodes :: "nat \<Rightarrow> nat list \<Rightarrow> ctx \<Rightarrow> ctx result" where
  "removeNodes parentDom [] c = Return c"
| "removeNodes parentDom (n # rest) c =
     (if parentOf c n = Some parentDom
      then bindR (removeChild parentDom n c) (removeNodes parentDom rest)
      else removeNodes parentDom rest c)"

definition removeInstance :: "nat \<Rightarrow> inst option \<Rightarrow> ctx \<Rightarrow> ctx result" where
  "removeInstance parentDom instance c =
     (case instance of None \<Rightarrow> Return c | Some i \<Rightarrow> removeNodes parentDom (getDomNodes i) c)"

section \<open>Reconciler (reconciler.ts)\<close>

text \<open>
  The functions of the reconciler call \<open>reconcile\<close> on the children; here each takes the
  function to call on a child as its first argument, and \<open>reconcile\<close> closes the recursion
  at the end of the section.
\<close>

type_synonym recfn =
  "nat \<Rightarrow> inst option \<Rightarrow> vnode option \<Rightarrow> string \<Rightarrow> nat option \<Rightarrow> ctx \<Rightarrow> (inst option \<times> ctx) result"

definition finallyR :: "('a \<times> ctx) result \<Rightarrow> (ctx \<Rightarrow> ctx) \<Rightarrow> ('a \<times> ctx) result" where
  "finallyR m f = (case m of Return (x, c) \<Rightarrow> Return (x, f c) | Raise e c \<Rightarrow> Raise e (f c)
                   | OutOfFuel \<Rightarrow> OutOfFuel)"

definition enumerate1 :: "'a list \<Rightarrow> (nat \<times> 'a) list" where
  "enumerate1 xs = zip [0..<length xs] xs"

text \<open>\<open>if (anchor) parentDom.insertBefore(x, anchor) else parentDom.appendChild(x)\<close>\<close>

definition placeNode :: "nat \<Rightarrow> nat \<Rightarrow> nat option \<Rightarrow> ctx \<Rightarrow> ctx result" where
  "placeNode parentDom n anchor c =
     (case anchor of Some a \<Rightarrow> insertBefore parentDom n a c | None \<Rightarrow> Return (appendChild parentDom n c))"

text \<open>\<open>ref.current = el\<close>: a write to an object of the user; on a primitive it raises.\<close>

definition setRef :: "pval \<Rightarrow> nat \<Rightarrow> ctx \<Rightarrow> ctx result" where
  "setRef r el c =
     (case r of
        PObj t es \<Rightarrow> Return (c\<lparr>refCurrent := (refCurrent c)(r \<mapsto> el)\<rparr>)
      | PFun t \<Rightarrow> Return (c\<lparr>refCurrent := (refCurrent c)(r \<mapsto> el)\<rparr>)
      | _ \<Rightarrow> Raise TypeError c)"

definition mountText :: "nat \<Rightarrow> vnode \<Rightarrow> nat option \<Rightarrow> ctx \<Rightarrow> (inst \<times> ctx) result" where
  "mountText parentDom node anchor c =
     (let (textNode, c1) = createTextNode (propGet (vprops node) ''nodeValue'') c
      in bindR (placeNode parentDom textNode anchor c1) (\<lambda>c2.
           Return (Instance TEXT (Some textNode) node [] (vkey node) [], c2)))"

definition updateText :: "inst \<Rightarrow> vnode \<Rightarrow> ctx \<Rightarrow> (inst \<times> ctx) result" where
  "updateText instance node c =
     (let c1 = (case idom instance of
                  Some d \<Rightarrow> logOp (SetNodeValue d (propGet (vprops node) ''nodeValue'')) c
                | None \<Rightarrow> c)
      in Return (Instance (ikind instance) (idom instance) node (ichildren instance)
                   (ikey instance) (ipath instance), c1))"

subsection \<open>Components\<close>

text \<open>The migration of the hook state of a path, written twice in the source
  (\<open>updateComponent\<close> and \<open>reconcile\<close>).\<close>

definition migrateHooks :: "string \<Rightarrow> string \<Rightarrow> ctx \<Rightarrow> ctx" where
  "migrateHooks oldPath path c =
     (let c1 = (case map_of (hstate c) oldPath of
                  None \<Rightarrow> c
                | Some oldState \<Rightarrow>
                    c\<lparr>hstate := AList.delete oldPath (AList.update path oldState (hstate c))\<rparr>);
          c2 = (case hcursor c1 oldPath of
                  None \<Rightarrow> c1
                | Some oldCursor \<Rightarrow> c1\<lparr>hcursor := ((hcursor c1)(path \<mapsto> oldCursor))(oldPath := None)\<rparr>)
      in if oldPath \<in> visited c2 then c2\<lparr>visited := insert path (visited c2 - {oldPath})\<rparr> else c2)"

text \<open>The prologue of a component call: push the path, reset its cursor, mark it visited.\<close>

definition enterComponent :: "string \<Rightarrow> ctx \<Rightarrow> ctx" where
  "enterComponent path c =
     c\<lparr>componentStack := componentStack c @ [path],
       hcursor := (hcursor c)(path \<mapsto> 0),
       visited := insert path (visited c)\<rparr>"

definition popComponent :: "ctx \<Rightarrow> ctx" where
  "popComponent c = c\<lparr>componentStack := butlast (componentStack c)\<rparr>"

definition mountComponent ::
    "recfn \<Rightarrow> env \<Rightarrow> nat \<Rightarrow> vnode \<Rightarrow> string \<Rightarrow> nat option \<Rightarrow> ctx \<Rightarrow> (inst option \<times> ctx) result" where
  "mountComponent rec E parentDom node path anchor c =
     finallyR
       (let c1 = enterComponent path c in
        case vtype node of
          Function f name \<Rightarrow>
            bindR (component E f node c1) (\<lambda>(childNode, c2).
            bindR (case childNode of
                     Some cn \<Rightarrow> rec parentDom None (Some cn) (path @ ''.c0'') anchor c2
                   | None \<Rightarrow> Return (None, c2)) (\<lambda>(childInstance, c3).
              let children = (case childInstance of Some ci \<Rightarrow> [Some ci] | None \<Rightarrow> [])
              in Return (Some (Instance COMPONENT (getFirstDomFromChildren children) node children
                                 (vkey node) path), c3)))
        | _ \<Rightarrow> Raise TypeError c1)
       popComponent"

text \<open>A component returns a node or null, so \<open>normalizeNode\<close> leaves its result as it is.\<close>

definition normalizeNode :: "vnode option \<Rightarrow> vnode option" where
  "normalizeNode node = (case node of None \<Rightarrow> None | Some n \<Rightarrow> Some n)"

definition updateComponent ::
    "recfn \<Rightarrow> env \<Rightarrow> nat \<Rightarrow> inst \<Rightarrow> vnode \<Rightarrow> string \<Rightarrow> ctx \<Rightarrow> (inst \<times> ctx) result" where
  "updateComponent rec E parentDom instance node path c =
     (let oldPath = ipath instance;
          c0 = (if oldPath \<noteq> path then migrateHooks oldPath path c else c);
          prevCursor = (case hcursor c0 path of None \<Rightarrow> 0 | Some n \<Rightarrow> n);
          c1 = enterComponent path c0
      in finallyR
           (case vtype node of
              Function f name \<Rightarrow>
                bindR (component E f node c1) (\<lambda>(rawChildNode, c2).
                  let childNode = normalizeNode rawChildNode;
                      prevChild = (case ichildren instance of [] \<Rightarrow> None | ch # rest \<Rightarrow> ch);
                      shouldRemovePrevChild =
                        (case childNode of
                           None \<Rightarrow> True
                         | Some cn \<Rightarrow>
                             vchildren cn = Some []
                             \<and> (case prevChild of None \<Rightarrow> False | Some pc \<Rightarrow> ikind pc = FRAGMENT))
                  in bindR (if shouldRemovePrevChild
                            then rec parentDom prevChild None (path @ ''.c0'') None c2
                            else (case childNode of
                                    Some cn \<Rightarrow> rec parentDom prevChild (Some cn) (path @ ''.c0'') None c2
                                  | None \<Rightarrow> rec parentDom prevChild None (path @ ''.c0'') None c2))
                       (\<lambda>(childInstance, c3).
                          let children = (case childInstance of Some ci \<Rightarrow> [Some ci] | None \<Rightarrow> [])
                          in Return (Instance (ikind instance)
                                       (getFirstDom (Instance (ikind instance) (idom instance) node children
                                                       (ikey instance) path))
                                       node children (ikey instance) path, c3)))
            | _ \<Rightarrow> Raise TypeError c1)
           (\<lambda>c. (popComponent c)\<lparr>hcursor := (hcursor c)(path \<mapsto> prevCursor)\<rparr>))"

subsection \<open>Host elements: mount\<close>

definition hostTag :: "ntype \<Rightarrow> string" where
  "hostTag t = (case t of Host tag \<Rightarrow> tag | _ \<Rightarrow> [])"

fun mountHostChildren ::
    "recfn \<Rightarrow> nat \<Rightarrow> string \<Rightarrow> (nat \<times> vnode) list \<Rightarrow> ctx \<Rightarrow> (inst option list \<times> ctx) result" where
  "mountHostChildren rec el path [] c = Return ([], c)"
| "mountHostChildren rec el path ((i, childNode) # rest) c =
     bindR (rec el None (Some childNode)
              (createChildPath path (vkey childNode) i (Some (vtype childNode))) None c)
       (\<lambda>(childInstance, c1).
     bindR (mountHostChildren rec el path rest c1) (\<lambda>(children, c2).
       Return (childInstance # children, c2)))"

definition mountHost ::
    "recfn \<Rightarrow> nat \<Rightarrow> vnode \<Rightarrow> string \<Rightarrow> nat option \<Rightarrow> ctx \<Rightarrow> (inst \<times> ctx) result" where
  "mountHost rec parentDom node path anchor c =
     (let (el, c1) = createElement (hostTag (vtype node)) c;
          c2 = setDomProps el (vprops node) c1;
          ref = propGet (vprops node) ''ref''
      in bindR (if truthy ref then setRef ref el c2 else Return c2) (\<lambda>c3.
         bindR (mountHostChildren rec el path (enumerate1 (childrenOf node)) c3) (\<lambda>(children, c4).
         bindR (placeNode parentDom el anchor c4) (\<lambda>c5.
           Return (Instance HOST (Some el) node children (vkey node) path, c5)))))"

subsection \<open>Fragments: mount\<close>

text \<open>The children are mounted from the last to the first; the list given is reversed.\<close>

fun mountFragmentChildren ::
    "recfn \<Rightarrow> nat \<Rightarrow> string \<Rightarrow> (nat \<times> vnode) list \<Rightarrow> nat option \<Rightarrow> ctx
       \<Rightarrow> (inst option list \<times> ctx) result" where
  "mountFragmentChildren rec parentDom path [] currentAnchor c = Return ([], c)"
| "mountFragmentChildren rec parentDom path ((i, childNode) # rest) currentAnchor c =
     bindR (rec parentDom None (Some childNode)
              (createChildPath path (vkey childNode) i (Some (vtype childNode))) currentAnchor c)
       (\<lambda>(childInstance, c1).
          let nextAnchor =
                (case childInstance of
                   None \<Rightarrow> currentAnchor
                 | Some ci \<Rightarrow> (case getFirstDom ci of Some d \<Rightarrow> Some d | None \<Rightarrow> currentAnchor))
          in bindR (mountFragmentChildren rec parentDom path rest nextAnchor c1) (\<lambda>(instances, c2).
               Return (instances @ [childInstance], c2)))"

definition mountFragment ::
    "recfn \<Rightarrow> nat \<Rightarrow> vnode \<Rightarrow> string \<Rightarrow> nat option \<Rightarrow> ctx \<Rightarrow> (inst \<times> ctx) result" where
  "mountFragment rec parentDom node path anchor c =
     bindR (mountFragmentChildren rec parentDom path (rev (enumerate1 (childrenOf node))) anchor c)
       (\<lambda>(children, c1).
          Return (Instance FRAGMENT (getFirstDomFromChildren children) node children (vkey node) path, c1))"

subsection \<open>Matching next children to previous children\<close>

text \<open>
  A previous child is named by its position in \<open>prevChildren\<close>; the set
  \<open>usedPrevChildren\<close> of the source holds positions here, and \<open>keyedMap\<close> (a JS \<open>Map\<close>)
  sends a key to the position of the last previous child that carries it.
\<close>

definition buildKeyedMap :: "inst option list \<Rightarrow> (string \<times> nat) list" where
  "buildKeyedMap prevChildren =
     fold (\<lambda>(j, child) keyedMap.
             case child of
               None \<Rightarrow> keyedMap
             | Some ch \<Rightarrow> (case ikey ch of None \<Rightarrow> keyedMap | Some k \<Rightarrow> AList.update k j keyedMap))
          (enumerate1 prevChildren) []"

definition childAt :: "inst option list \<Rightarrow> nat option \<Rightarrow> inst option" where
  "childAt prevChildren m =
     (case m of None \<Rightarrow> None
      | Some j \<Rightarrow> (if j < length prevChildren then prevChildren ! j else None))"

text \<open>First stage for an unkeyed child: the first unused previous child whose path is the
  path this slot computes.\<close>

definition findByPath :: "inst option list \<Rightarrow> nat set \<Rightarrow> string \<Rightarrow> nat option" where
  "findByPath prevChildren used expectedPath =
     find (\<lambda>j. case prevChildren ! j of
                  None \<Rightarrow> False
                | Some prevChild \<Rightarrow> j \<notin> used \<and> ipath prevChild = expectedPath)
          [0..<length prevChildren]"

text \<open>Second stage (host update only): the unused unkeyed previous children of the type.\<close>

definition isCandidate :: "inst option list \<Rightarrow> nat set \<Rightarrow> ntype \<Rightarrow> nat \<Rightarrow> bool" where
  "isCandidate prevChildren used t j =
     (case prevChildren ! j of
        None \<Rightarrow> False
      | Some prevChild \<Rightarrow> j \<notin> used \<and> ikey prevChild = None \<and> vtype (inode prevChild) = t)"

definition candidates :: "inst option list \<Rightarrow> nat set \<Rightarrow> ntype \<Rightarrow> nat list" where
  "candidates prevChildren used t = filter (isCandidate prevChildren used t) [0..<length prevChildren]"

definition distance :: "nat \<Rightarrow> nat \<Rightarrow> nat" where
  "distance a b = (if a \<le> b then b - a else a - b)"

definition nearestCandidate :: "nat list \<Rightarrow> nat \<Rightarrow> nat" where
  "nearestCandidate cands i =
     fold (\<lambda>candidate best. if distance candidate i < distance best i then candidate else best)
          cands (hd cands)"

definition lastCandidate :: "inst option list \<Rightarrow> nat set \<Rightarrow> ntype \<Rightarrow> nat list \<Rightarrow> nat option" where
  "lastCandidate prevChildren used t cands =
     (case find (isCandidate prevChildren used t) (rev [0..<length prevChildren]) of
        Some j \<Rightarrow> Some j
      | None \<Rightarrow> fold (\<lambda>candidate best.
                        case best of None \<Rightarrow> Some candidate
                        | Some m \<Rightarrow> (if candidate > m then Some candidate else best))
                     cands None)"

definition matchByType :: "inst option list \<Rightarrow> nat set \<Rightarrow> ntype \<Rightarrow> nat \<Rightarrow> int \<Rightarrow> nat option" where
  "matchByType prevChildren used t i lastIndex =
     (let cands = candidates prevChildren used t
      in if cands = [] then None
         else if int i = lastIndex then lastCandidate prevChildren used t cands
         else Some (nearestCandidate cands i))"

text \<open>One turn of the matching loop of \<open>updateHost\<close>: the match and the used set after it.\<close>

definition matchHostChild ::
    "string \<Rightarrow> inst option list \<Rightarrow> (string \<times> nat) list \<Rightarrow> int \<Rightarrow> nat set \<Rightarrow> nat \<Rightarrow> vnode
       \<Rightarrow> nat option \<times> nat set" where
  "matchHostChild path prevChildren keyedMap lastIndex used i childNode =
     (case vkey childNode of
        Some childKey \<Rightarrow>
          (case childAt prevChildren (map_of keyedMap childKey) of
             Some ch \<Rightarrow> (map_of keyedMap childKey, (case map_of keyedMap childKey of Some j \<Rightarrow> insert j used | None \<Rightarrow> used))
           | None \<Rightarrow> (None, used))
      | None \<Rightarrow>
          (case findByPath prevChildren used (createChildPath path None i (Some (vtype childNode))) of
             Some j \<Rightarrow> (Some j, insert j used)
           | None \<Rightarrow>
               (case matchByType prevChildren used (vtype childNode) i lastIndex of
                  Some j \<Rightarrow> (Some j, insert j used)
                | None \<Rightarrow> (None, used))))"

fun matchHostChildren ::
    "string \<Rightarrow> inst option list \<Rightarrow> (string \<times> nat) list \<Rightarrow> int \<Rightarrow> nat set \<Rightarrow> (nat \<times> vnode) list
       \<Rightarrow> nat option list \<times> nat set" where
  "matchHostChildren path prevChildren keyedMap lastIndex used [] = ([], used)"
| "matchHostChildren path prevChildren keyedMap lastIndex used ((i, childNode) # rest) =
     (let (m, used1) = matchHostChild path prevChildren keyedMap lastIndex used i childNode;
          (ms, used2) = matchHostChildren path prevChildren keyedMap lastIndex used1 rest
      in (m # ms, used2))"

text \<open>One turn of the matching loop of \<open>updateFragment\<close>.\<close>

definition matchFragmentChild ::
    "string \<Rightarrow> inst option list \<Rightarrow> (string \<times> nat) list \<Rightarrow> nat set \<Rightarrow> nat \<Rightarrow> vnode
       \<Rightarrow> nat option \<times> nat set" where
  "matchFragmentChild path prevChildren keyedMap used i childNode =
     (case vkey childNode of
        Some childKey \<Rightarrow>
          (case childAt prevChildren (map_of keyedMap childKey) of
             Some ch \<Rightarrow> (map_of keyedMap childKey, (case map_of keyedMap childKey of Some j \<Rightarrow> insert j used | None \<Rightarrow> used))
           | None \<Rightarrow> (None, used))
      | None \<Rightarrow>
          (case findByPath prevChildren used (createChildPath path None i (Some (vtype childNode))) of
             Some j \<Rightarrow> (Some j, insert j used)
           | None \<Rightarrow> (None, used)))"

fun matchFragmentChildren ::
    "string \<Rightarrow> inst option list \<Rightarrow> (string \<times> nat) list \<Rightarrow> nat set \<Rightarrow> (nat \<times> vnode) list
       \<Rightarrow> nat option list \<times> nat set" where
  "matchFragmentChildren path prevChildren keyedMap used [] = ([], used)"
| "matchFragmentChildren path prevChildren keyedMap used ((i, childNode) # rest) =
     (let (m, used1) = matchFragmentChild path prevChildren keyedMap used i childNode;
          (ms, used2) = matchFragmentChildren path prevChildren keyedMap used1 rest
      in (m # ms, used2))"

subsection \<open>Anchors\<close>

text \<open>The first previous child with the key whose first node is a child of the parent.\<close>

fun keyAnchor :: "ctx \<Rightarrow> nat \<Rightarrow> inst option list \<Rightarrow> string \<Rightarrow> nat option" where
  "keyAnchor c el [] k = None"
| "keyAnchor c el (None # rest) k = keyAnchor c el rest k"
| "keyAnchor c el (Some prevChild # rest) k =
     (if ikey prevChild = Some k
      then (case getFirstDom prevChild of
              Some prevDom \<Rightarrow> (if parentOf c prevDom = Some el then Some prevDom else keyAnchor c el rest k)
            | None \<Rightarrow> keyAnchor c el rest k)
      else keyAnchor c el rest k)"

definition instanceAnchor :: "ctx \<Rightarrow> nat \<Rightarrow> inst option \<Rightarrow> nat option" where
  "instanceAnchor c el nextChildInstance =
     (case nextChildInstance of
        None \<Rightarrow> None
      | Some ni \<Rightarrow>
          (case getFirstDom ni of
             Some nextDom \<Rightarrow> (if parentOf c nextDom = Some el then Some nextDom else None)
           | None \<Rightarrow> None))"

text \<open>
  The anchors of \<open>updateHost\<close>, from the slot of the first element of the list to the
  end: \<open>anchors[n]\<close> is null, and \<open>anchors[i]\<close> is computed from \<open>anchors[i + 1]\<close>, the key
  of the next child and the instance matched to it, on the tree as it is before any child
  is processed.
\<close>

fun hostAnchors :: "ctx \<Rightarrow> nat \<Rightarrow> inst option list \<Rightarrow> (vnode \<times> inst option) list \<Rightarrow> nat option list" where
  "hostAnchors c el prevChildren [] = [None]"
| "hostAnchors c el prevChildren (slot # rest) =
     (let anchors = hostAnchors c el prevChildren rest;
          next = hd anchors
      in (case rest of
            [] \<Rightarrow> next
          | (nextChildNode, nextChildInstance) # others \<Rightarrow>
              (let a1 = (case vkey nextChildNode of
                           None \<Rightarrow> next
                         | Some nextChildKey \<Rightarrow>
                             (case keyAnchor c el prevChildren nextChildKey of
                                Some prevDom \<Rightarrow> Some prevDom | None \<Rightarrow> next))
               in if a1 = next
                  then (case instanceAnchor c el nextChildInstance of Some nextDom \<Rightarrow> Some nextDom | None \<Rightarrow> a1)
                  else a1)) # anchors)"

text \<open>The anchors of \<open>updateFragment\<close>: the matched instance first, then the key.\<close>

fun fragmentAnchors :: "ctx \<Rightarrow> nat \<Rightarrow> inst option list \<Rightarrow> (vnode \<times> inst option) list \<Rightarrow> nat option list" where
  "fragmentAnchors c parentDom prevChildren [] = [None]"
| "fragmentAnchors c parentDom prevChildren (slot # rest) =
     (let anchors = fragmentAnchors c parentDom prevChildren rest;
          next = hd anchors
      in (case rest of
            [] \<Rightarrow> next
          | (nextChildNode, nextChildInstance) # others \<Rightarrow>
              (let a1 = (case instanceAnchor c parentDom nextChildInstance of
                           Some nextDom \<Rightarrow> Some nextDom | None \<Rightarrow> next)
               in if a1 = next
                  then (case vkey nextChildNode of
                          None \<Rightarrow> a1
                        | Some nextChildKey \<Rightarrow>
                            (case keyAnchor c parentDom prevChildren nextChildKey of
                               Some prevDom \<Rightarrow> Some prevDom | None \<Rightarrow> a1))
                  else a1)) # anchors)"

subsection \<open>Moving a keyed child\<close>

text \<open>
  The block of \<open>updateHost\<close> that runs, before a keyed child that kept its instance is
  reconciled, when the first node \<open>currentDom\<close> of the instance is a child of \<open>el\<close>.
\<close>

definition moveKeyedChild :: "nat \<Rightarrow> nat \<Rightarrow> nat \<Rightarrow> nat option \<Rightarrow> ctx \<Rightarrow> ctx result" where
  "moveKeyedChild el i currentDom anchor c =
     (let currentNextSibling = nextSibling c currentDom in
      case anchor of
        Some a \<Rightarrow>
          (let anchorPrevSibling = previousSibling c a;
               currentPrevSibling = previousSibling c currentDom;
               needsMove = (currentNextSibling \<noteq> Some a \<or> Some currentDom \<noteq> anchorPrevSibling
                            \<or> currentPrevSibling \<noteq> None)
           in if needsMove then
                (if Some currentDom \<noteq> anchorPrevSibling \<or> currentPrevSibling \<noteq> None then
                   (if currentPrevSibling \<noteq> None \<and> i = 0 then
                      (case firstElementChild c el of
                         Some firstChild \<Rightarrow>
                           (if firstChild \<noteq> currentDom then insertBefore el currentDom firstChild c
                            else Return c)
                       | None \<Rightarrow> Return c)
                    else insertBefore el currentDom a c)
                 else Return c)
              else Return c)
      | None \<Rightarrow>
          (if currentNextSibling \<noteq> None then Return (appendChild el currentDom c) else Return c))"

definition moveIfKeyed :: "nat \<Rightarrow> nat \<Rightarrow> vnode \<Rightarrow> inst option \<Rightarrow> nat option \<Rightarrow> ctx \<Rightarrow> ctx result" where
  "moveIfKeyed el i childNode childInstance anchor c =
     (case childInstance of
        None \<Rightarrow> Return c
      | Some ci \<Rightarrow>
          (if vkey childNode \<noteq> None \<and> ikey ci = vkey childNode
           then (case getFirstDom ci of
                   Some currentDom \<Rightarrow>
                     (if parentOf c currentDom = Some el then moveKeyedChild el i currentDom anchor c
                      else Return c)
                 | None \<Rightarrow> Return c)
           else Return c))"

subsection \<open>Host elements and fragments: update\<close>

definition withPath :: "string \<Rightarrow> inst \<Rightarrow> inst" where
  "withPath path i = Instance (ikind i) (idom i) (inode i) (ichildren i) (ikey i) path"

definition dropKey :: "vnode \<Rightarrow> inst option \<Rightarrow> (string \<times> nat) list \<Rightarrow> (string \<times> nat) list" where
  "dropKey childNode childInstance keyedMap =
     (case (childInstance, vkey childNode) of
        (Some ci, Some childKey) \<Rightarrow> AList.delete childKey keyedMap
      | _ \<Rightarrow> keyedMap)"

text \<open>The loop of \<open>updateHost\<close> over the next children; a slot is the index, the node,
  the instance matched to it and its anchor.\<close>

fun updateHostChildren ::
    "recfn \<Rightarrow> nat \<Rightarrow> string \<Rightarrow> (nat \<times> vnode \<times> inst option \<times> nat option) list
       \<Rightarrow> (string \<times> nat) list \<Rightarrow> ctx \<Rightarrow> ((inst option list \<times> (string \<times> nat) list) \<times> ctx) result" where
  "updateHostChildren rec el path [] keyedMap c = Return (([], keyedMap), c)"
| "updateHostChildren rec el path ((i, childNode, childInstance, anchor) # rest) keyedMap c =
     (let childPath = createChildPath path (vkey childNode) i (Some (vtype childNode));
          keyedMap1 = dropKey childNode childInstance keyedMap
      in bindR (moveIfKeyed el i childNode childInstance anchor c) (\<lambda>c1.
         bindR (rec el childInstance (Some childNode) childPath anchor c1) (\<lambda>(newInstance, c2).
         bindR (updateHostChildren rec el path rest keyedMap1 c2) (\<lambda>((newChildren, keyedMap2), c3).
           Return ((map_option (withPath childPath) newInstance # newChildren, keyedMap2), c3)))))"

text \<open>The same loop of \<open>updateFragment\<close>, which moves nothing.\<close>

fun updateFragmentChildren ::
    "recfn \<Rightarrow> nat \<Rightarrow> string \<Rightarrow> (nat \<times> vnode \<times> inst option \<times> nat option) list
       \<Rightarrow> (string \<times> nat) list \<Rightarrow> ctx \<Rightarrow> ((inst option list \<times> (string \<times> nat) list) \<times> ctx) result" where
  "updateFragmentChildren rec parentDom path [] keyedMap c = Return (([], keyedMap), c)"
| "updateFragmentChildren rec parentDom path ((i, childNode, childInstance, anchor) # rest) keyedMap c =
     (let childPath = createChildPath path (vkey childNode) i (Some (vtype childNode));
          keyedMap1 = dropKey childNode childInstance keyedMap
      in bindR (rec parentDom childInstance (Some childNode) childPath anchor c) (\<lambda>(newInstance, c2).
         bindR (updateFragmentChildren rec parentDom path rest keyedMap1 c2) (\<lambda>((newChildren, keyedMap2), c3).
           Return ((map_option (withPath childPath) newInstance # newChildren, keyedMap2), c3))))"

text \<open>Removal of the previous children no next child took, then of what is left in
  \<open>keyedMap\<close>.\<close>

fun removeUnused :: "nat \<Rightarrow> nat set \<Rightarrow> (nat \<times> inst option) list \<Rightarrow> ctx \<Rightarrow> ctx result" where
  "removeUnused el used [] c = Return c"
| "removeUnused el used ((j, child) # rest) c =
     (case child of
        Some ch \<Rightarrow>
          (if j \<notin> used then bindR (removeNodes el (getDomNodes ch) c) (removeUnused el used rest)
           else removeUnused el used rest c)
      | None \<Rightarrow> removeUnused el used rest c)"

fun removeKeyed :: "nat \<Rightarrow> inst option list \<Rightarrow> nat list \<Rightarrow> ctx \<Rightarrow> ctx result" where
  "removeKeyed el prevChildren [] c = Return c"
| "removeKeyed el prevChildren (j # rest) c =
     (case childAt prevChildren (Some j) of
        Some unusedChild \<Rightarrow>
          bindR (removeNodes el (getDomNodes unusedChild) c) (removeKeyed el prevChildren rest)
      | None \<Rightarrow> removeKeyed el prevChildren rest c)"

definition updateHost ::
    "recfn \<Rightarrow> nat \<Rightarrow> inst \<Rightarrow> vnode \<Rightarrow> string \<Rightarrow> ctx \<Rightarrow> (inst \<times> ctx) result" where
  "updateHost rec parentDom instance node path c =
     (case idom instance of
        None \<Rightarrow> Raise TypeError c
      | Some el \<Rightarrow>
          (let c1 = updateDomProps el (vprops (inode instance)) (vprops node) c;
               ref = propGet (vprops node) ''ref''
           in bindR (if truthy ref \<and> ref \<noteq> propGet (vprops (inode instance)) ''ref''
                     then setRef ref el c1 else Return c1) (\<lambda>c2.
                let prevChildren = ichildren instance;
                    nextChildren = childrenOf node;
                    keyedMap = buildKeyedMap prevChildren;
                    lastIndex = int (length nextChildren) - 1;
                    (matches, usedPrevChildren) =
                       matchHostChildren path prevChildren keyedMap lastIndex {} (enumerate1 nextChildren);
                    childInstances = map (childAt prevChildren) matches;
                    anchors = hostAnchors c2 el prevChildren (zip nextChildren childInstances);
                    slots = zip [0..<length nextChildren] (zip nextChildren (zip childInstances anchors))
                in bindR (updateHostChildren rec el path slots keyedMap c2) (\<lambda>((newChildren, keyedMap1), c3).
                   bindR (removeUnused el usedPrevChildren (enumerate1 prevChildren) c3) (\<lambda>c4.
                   bindR (removeKeyed el prevChildren (map snd keyedMap1) c4) (\<lambda>c5.
                     Return (Instance (ikind instance) (idom instance) node newChildren
                               (ikey instance) path, c5)))))))"

definition updateFragment ::
    "recfn \<Rightarrow> nat \<Rightarrow> inst \<Rightarrow> vnode \<Rightarrow> string \<Rightarrow> ctx \<Rightarrow> (inst \<times> ctx) result" where
  "updateFragment rec parentDom instance node path c =
     (let prevChildren = ichildren instance;
          nextChildren = childrenOf node;
          keyedMap = buildKeyedMap prevChildren;
          (matches, usedPrevChildren) =
             matchFragmentChildren path prevChildren keyedMap {} (enumerate1 nextChildren);
          childInstances = map (childAt prevChildren) matches;
          anchors = fragmentAnchors c parentDom prevChildren (zip nextChildren childInstances);
          slots = zip [0..<length nextChildren] (zip nextChildren (zip childInstances anchors))
      in bindR (updateFragmentChildren rec parentDom path slots keyedMap c) (\<lambda>((newChildren, keyedMap1), c3).
         bindR (removeUnused parentDom usedPrevChildren (enumerate1 prevChildren) c3) (\<lambda>c4.
         bindR (removeKeyed parentDom prevChildren (map snd keyedMap1) c4) (\<lambda>c5.
           Return (Instance (ikind instance)
                     (getFirstDom (Instance (ikind instance) (idom instance) node newChildren
                                     (ikey instance) (ipath instance)))
                     node newChildren (ikey instance) path, c5)))))"

subsection \<open>reconcile\<close>

definition mountNode ::
    "recfn \<Rightarrow> env \<Rightarrow> nat \<Rightarrow> vnode \<Rightarrow> string \<Rightarrow> nat option \<Rightarrow> ctx \<Rightarrow> (inst option \<times> ctx) result" where
  "mountNode rec E parentDom node path anchor c =
     (case vtype node of
        TEXT_ELEMENT \<Rightarrow> bindR (mountText parentDom node anchor c) (\<lambda>(i, c1). Return (Some i, c1))
      | Fragment \<Rightarrow> bindR (mountFragment rec parentDom node path anchor c) (\<lambda>(i, c1). Return (Some i, c1))
      | Function f name \<Rightarrow> mountComponent rec E parentDom node path anchor c
      | Host tag \<Rightarrow> bindR (mountHost rec parentDom node path anchor c) (\<lambda>(i, c1). Return (Some i, c1)))"

text \<open>Unmounting a fragment: the nodes of each child, child after child.\<close>

fun removeFragmentChildren :: "nat \<Rightarrow> inst option list \<Rightarrow> ctx \<Rightarrow> ctx result" where
  "removeFragmentChildren parentDom [] c = Return c"
| "removeFragmentChildren parentDom (None # rest) c = removeFragmentChildren parentDom rest c"
| "removeFragmentChildren parentDom (Some child # rest) c =
     bindR (removeNodes parentDom (getDomNodes child) c) (removeFragmentChildren parentDom rest)"

definition reconcileStep ::
    "recfn \<Rightarrow> env \<Rightarrow> nat \<Rightarrow> inst option \<Rightarrow> vnode option \<Rightarrow> string \<Rightarrow> nat option \<Rightarrow> ctx
       \<Rightarrow> (inst option \<times> ctx) result" where
  "reconcileStep rec E parentDom instance node path anchor c =
     (case node of
        None \<Rightarrow>
          (case instance of
             None \<Rightarrow> Return (None, c)
           | Some i \<Rightarrow>
               bindR (if ikind i = FRAGMENT then removeFragmentChildren parentDom (ichildren i) c
                      else removeInstance parentDom (Some i) c) (\<lambda>c1. Return (None, c1)))
      | Some n \<Rightarrow>
          (case instance of
             None \<Rightarrow> mountNode rec E parentDom n path anchor c
           | Some i \<Rightarrow>
               (if vtype (inode i) \<noteq> vtype n \<or> ikey i \<noteq> vkey n
                then bindR (removeInstance parentDom (Some i) c) (mountNode rec E parentDom n path anchor)
                else
                  bindR (case vtype n of
                           TEXT_ELEMENT \<Rightarrow> updateText i n c
                         | Fragment \<Rightarrow> updateFragment rec parentDom i n path c
                         | Function f name \<Rightarrow> updateComponent rec E parentDom i n path c
                         | Host tag \<Rightarrow> updateHost rec parentDom i n path c)
                    (\<lambda>(updatedInstance, c1).
                       let oldPath = ipath updatedInstance;
                           c2 = (if oldPath \<noteq> path \<and> ikind updatedInstance = COMPONENT
                                 then migrateHooks oldPath path c1 else c1)
                       in Return (Some (withPath path updatedInstance), c2)))))"

text \<open>
  \<open>reconcile\<close>, with a bound on the depth of the nested calls: a component may return a
  node of its own type for ever, and the source then never returns.
\<close>

primrec reconcile :: "env \<Rightarrow> nat \<Rightarrow> recfn" where
  "reconcile E 0 = (\<lambda>parentDom instance node path anchor c. OutOfFuel)"
| "reconcile E (Suc fuel) = reconcileStep (reconcile E fuel) E"

section \<open>Render scheduler (render.ts)\<close>

definition render :: "env \<Rightarrow> nat \<Rightarrow> ctx \<Rightarrow> ctx result" where
  "render E fuel c =
     (case (rootContainer c, rootNode c) of
        (Some container, Some node) \<Rightarrow>
          (let c1 = c\<lparr>hcursor := Map.empty, componentStack := [], queue := []\<rparr>
           in bindR (reconcile E fuel container (rootInstance c1) (Some node) ''0'' None c1)
                (\<lambda>(newInstance, c2).
              bindR (cleanupUnusedHooks E (c2\<lparr>rootInstance := newInstance\<rparr>)) (\<lambda>c3.
                Return (enqueue FlushEffectsTask c3))))
      | _ \<Rightarrow> Return c)"

section \<open>Readings of the store used in the statements\<close>

text \<open>The slot a queue entry or a setter names: path and cursor.\<close>

definition slotOf :: "ctx \<Rightarrow> string \<times> nat \<Rightarrow> hval" where
  "slotOf c entry = slotAt (currentHooks c (fst entry)) (snd entry)"

definition isEffectSlot :: "ctx \<Rightarrow> string \<times> nat \<Rightarrow> bool" where
  "isEffectSlot c entry = (case slotOf c entry of HEffect d cl e \<Rightarrow> True | _ \<Rightarrow> False)"

definition cleanupCall :: "nat option \<Rightarrow> call list" where
  "cleanupCall cl = (case cl of Some k \<Rightarrow> [CleanupCall k] | None \<Rightarrow> [])"

definition entryCalls :: "ctx \<Rightarrow> string \<times> nat \<Rightarrow> call list" where
  "entryCalls c entry =
     (case slotOf c entry of HEffect d cl e \<Rightarrow> cleanupCall cl @ [EffectCall e] | _ \<Rightarrow> [])"

definition returnedCleanup :: "env \<Rightarrow> nat \<Rightarrow> nat option" where
  "returnedCleanup E e = (case effectBody E e of ReturnsCleanup k \<Rightarrow> Some k | _ \<Rightarrow> None)"

definition slotAfterFlush :: "env \<Rightarrow> hval \<Rightarrow> hval" where
  "slotAfterFlush E v = (case v of HEffect d cl e \<Rightarrow> HEffect d (returnedCleanup E e) e | _ \<Rightarrow> v)"

definition mapState :: "(ctx \<Rightarrow> ctx) \<Rightarrow> ctx result \<Rightarrow> ctx result" where
  "mapState f r = (case r of Return c \<Rightarrow> Return (f c) | Raise x c \<Rightarrow> Raise x (f c) | OutOfFuel \<Rightarrow> OutOfFuel)"

section \<open>Example programs\<close>

text \<open>A context with a container element (node 0) and nothing mounted.\<close>

definition emptyContext :: ctx where
  "emptyContext =
     \<lparr>domKind = [0 \<mapsto> DElement ''div''], parentOf = Map.empty, childNodes = (\<lambda>n. []),
      expando = (\<lambda>n. Map.empty), nextNodeId = 1, ops = [],
      hstate = [], hcursor = Map.empty, visited = {}, componentStack = [], queue = [],
      rootContainer = Some 0, rootNode = None, rootInstance = None,
      renderScheduled = False, tasks = [], calls = [], refCurrent = Map.empty\<rparr>"

definition quietEnv :: env where
  "quietEnv = \<lparr>component = (\<lambda>f node c. Return (None, c)),
               effectBody = (\<lambda>e. if e = 1 then ReturnsCleanup 8 else ReturnsNothing),
               cleanupThrows = (\<lambda>k. False)\<rparr>"

definition throwingEnv :: env where
  "throwingEnv = \<lparr>component = (\<lambda>f node c. Return (None, c)),
                  effectBody = (\<lambda>e. if e = 1 then Throws else ReturnsNothing),
                  cleanupThrows = (\<lambda>k. False)\<rparr>"

definition twoEffects :: ctx where
  "twoEffects = emptyContext\<lparr>hstate := [(''0'', [HEffect None (Some 7) 1, HEffect None None 2])],
                             queue := [(''0'', 0), (''0'', 1)]\<rparr>"

text \<open>The cleanups stored in the effect slots of a slot sequence, and those of the
  paths of the store that a pass did not visit, in store order.\<close>

fun storedCleanups :: "hval list \<Rightarrow> call list" where
  "storedCleanups [] = []"
| "storedCleanups (HEffect d (Some cl) e # rest) = CleanupCall cl # storedCleanups rest"
| "storedCleanups (other # rest) = storedCleanups rest"

definition unvisitedPaths :: "ctx \<Rightarrow> (string \<times> hval list) list \<Rightarrow> string list" where
  "unvisitedPaths c es = filter (\<lambda>p. p \<notin> visited c) (map fst es)"

definition gcCalls :: "ctx \<Rightarrow> (string \<times> hval list) list \<Rightarrow> call list" where
  "gcCalls c es = concat (map (\<lambda>(p, hs). if p \<notin> visited c then storedCleanups hs else []) es)"

definition initialOf :: "init \<Rightarrow> hval" where
  "initialOf i = (case i of Initial v \<Rightarrow> v | Lazy v \<Rightarrow> v)"

definition staleStore :: ctx where
  "staleStore = emptyContext\<lparr>rootNode := Some (VNode TEXT_ELEMENT None [(''nodeValue'', PStr ''hi'')] (Some [])),
                              hstate := [(''0.c0'', [HNum 5, HEffect None (Some 7) 1])],
                              hcursor := [''0.c0'' \<mapsto> 2]\<rparr>"


definition hostNode :: "string \<Rightarrow> vnode list \<Rightarrow> vnode" where
  "hostNode tag cs = VNode (Host tag) None [] (Some cs)"

definition oneSpan :: "inst option list" where
  "oneSpan = [Some (Instance HOST (Some 1) (hostNode ''span'' []) [] None ''0.cspan_0'')]"

(*DEFS-END*)

section \<open>Identity paths of keyed children\<close>

text \<open>
  C10.  The identity path of a keyed child is the parent path followed by \<open>.k\<close> and the
  key, whatever the position index and the node type: two calls that differ only in the
  index and the type give the same path.
\<close>

theorem createChildPath_keyed:
  "createChildPath parentPath (Some k) i t = parentPath @ ''.k'' @ k
   \<and> createChildPath parentPath (Some k) i t = createChildPath parentPath (Some k) j u"
  by (simp add: createChildPath_def)

section \<open>The state setter\<close>

lemma slotAt_setSlot: "slotAt (setSlot hs i v) i = v"
  by (auto simp: slotAt_def setSlot_def nth_append)

text \<open>
  C5.  For a state slot that exists (cursor within the slot sequence of the path), the
  setter computes the next value, directly or by the updater applied to the stored value.
  If the next value is identical to the stored one the context is left as it is: nothing
  is stored and no render is requested.  Otherwise the slot holds the next value afterwards
  and a render is pending (queued now, unless one was pending already).  Identity is the
  only test: two different references always commit.
\<close>

theorem setState_reference_identity:
  assumes "map_of (hstate c) path = Some hooks" and "cursor < length hooks"
  shows "let cur = hooks ! cursor;
             new = (case nextValue of Next v \<Rightarrow> v | Updater f \<Rightarrow> f cur);
             c' = setState (path, cursor) nextValue c
         in (new = cur \<longrightarrow> c' = c)
          \<and> (new \<noteq> cur \<longrightarrow>
                slotOf c' (path, cursor) = new
              \<and> renderScheduled c'
              \<and> (\<not> renderScheduled c \<longrightarrow> tasks c' = tasks c @ [RenderTask]))"
  using assms
  by (auto simp: setState_def Let_def slotAt_def slotOf_def currentHooks_def enqueueRender_def
      enqueue_def update_conv' setSlot_def split: update.splits)

theorem setState_reference_identity_witness:
  "setState (''0'', 0) (Next (HRef 3)) (emptyContext\<lparr>hstate := [(''0'', [HRef 3])]\<rparr>)
     = emptyContext\<lparr>hstate := [(''0'', [HRef 3])]\<rparr>
   \<and> slotOf (setState (''0'', 0) (Updater (\<lambda>v. HRef 4)) (emptyContext\<lparr>hstate := [(''0'', [HRef 3])]\<rparr>))
        (''0'', 0) = HRef 4
   \<and> tasks (setState (''0'', 0) (Updater (\<lambda>v. HRef 4)) (emptyContext\<lparr>hstate := [(''0'', [HRef 3])]\<rparr>))
        = [RenderTask]"
  using setState_reference_identity [of "emptyContext\<lparr>hstate := [(''0'', [HRef 3])]\<rparr>" "''0''" "[HRef 3]" 0
          "Next (HRef 3)"]
        setState_reference_identity [of "emptyContext\<lparr>hstate := [(''0'', [HRef 3])]\<rparr>" "''0''" "[HRef 3]" 0
          "Updater (\<lambda>v. HRef 4)"]
  by (simp add: emptyContext_def Let_def)

section \<open>Effect flush\<close>

lemma slotOf_queue [simp]: "slotOf (c\<lparr>queue := q\<rparr>) entry = slotOf c entry"
  by (simp add: slotOf_def currentHooks_def)

lemma flushEntry_effect:
  assumes s: "slotOf c (p, i) = HEffect d cl e"
    and nt: "\<forall>k. \<not> cleanupThrows E k" "\<forall>x. effectBody E x \<noteq> Throws"
  shows "\<exists>c1. flushEntry E (p, i) c = Return c1
           \<and> calls c1 = calls c @ cleanupCall cl @ [EffectCall e]
           \<and> queue c1 = queue c
           \<and> slotOf c1 (p, i) = HEffect d (returnedCleanup E e) e
           \<and> (\<forall>entry. entry \<noteq> (p, i) \<longrightarrow> slotOf c1 entry = slotOf c entry)"
proof -
  from s obtain hooks where h: "map_of (hstate c) p = Some hooks" and i: "i < length hooks"
    and hi: "hooks ! i = HEffect d cl e"
    by (auto simp: slotOf_def currentHooks_def slotAt_def split: option.splits if_splits)
  let ?c0 = "case cl of None \<Rightarrow> c | Some k \<Rightarrow> c\<lparr>calls := calls c @ [CleanupCall k]\<rparr>"
  let ?c1 = "?c0\<lparr>calls := calls ?c0 @ [EffectCall e]\<rparr>"
  let ?c2 = "?c1\<lparr>hstate := AList.update p (hooks[i := HEffect d (returnedCleanup E e) e]) (hstate ?c1)\<rparr>"
  have hs: "hstate ?c1 = hstate c" by (cases cl) auto
  have "flushEntry E (p, i) c = Return ?c2"
    using h i hi nt
    by (cases cl; cases "effectBody E e")
       (auto simp: flushEntry_def slotAt_def bindR_def callCleanup_def callEffect_def Let_def
          returnedCleanup_def)
  moreover have "calls ?c2 = calls c @ cleanupCall cl @ [EffectCall e]"
    by (cases cl) (auto simp: cleanupCall_def)
  moreover have "queue ?c2 = queue c" by (cases cl) auto
  moreover have "slotOf ?c2 (p, i) = HEffect d (returnedCleanup E e) e"
    using i by (simp add: slotOf_def currentHooks_def update_conv' slotAt_def)
  moreover have "\<forall>entry. entry \<noteq> (p, i) \<longrightarrow> slotOf ?c2 entry = slotOf c entry"
    using h hs by (auto simp: slotOf_def currentHooks_def update_conv' slotAt_def)
  ultimately show ?thesis by blast
qed

lemma flushQueue_ok:
  assumes "distinct es" and "\<forall>entry \<in> set es. isEffectSlot c entry"
    and nt: "\<forall>k. \<not> cleanupThrows E k" "\<forall>x. effectBody E x \<noteq> Throws"
  shows "\<exists>c'. flushQueue E es c = Return c'
           \<and> queue c' = (if es = [] then queue c else [])
           \<and> calls c' = calls c @ concat (map (entryCalls c) es)
           \<and> (\<forall>entry \<in> set es. slotOf c' entry = slotAfterFlush E (slotOf c entry))
           \<and> (\<forall>entry. entry \<notin> set es \<longrightarrow> slotOf c' entry = slotOf c entry)"
  using assms(1,2)
proof (induction es arbitrary: c)
  case Nil
  then show ?case by simp
next
  case (Cons a es)
  obtain p i where a: "a = (p, i)" by (cases a)
  from Cons.prems a obtain d cl e where s: "slotOf c (p, i) = HEffect d cl e"
    by (auto simp: isEffectSlot_def split: hval.splits)
  let ?c0 = "c\<lparr>queue := es\<rparr>"
  from s have s0: "slotOf ?c0 (p, i) = HEffect d cl e" by simp
  from flushEntry_effect[OF s0 nt] obtain c1 where
    f: "flushEntry E (p, i) ?c0 = Return c1" and
    c1calls: "calls c1 = calls c @ cleanupCall cl @ [EffectCall e]" and
    c1q: "queue c1 = es" and
    c1s: "slotOf c1 (p, i) = HEffect d (returnedCleanup E e) e" and
    c1o: "\<forall>entry. entry \<noteq> (p, i) \<longrightarrow> slotOf c1 entry = slotOf c entry"
    by auto
  have d: "distinct es" and ni: "(p, i) \<notin> set es" using Cons.prems a by auto
  have eff: "\<forall>entry \<in> set es. isEffectSlot c1 entry"
  proof
    fix entry assume m: "entry \<in> set es"
    then have "entry \<noteq> (p, i)" using ni by auto
    then have "slotOf c1 entry = slotOf c entry" using c1o by blast
    moreover have "isEffectSlot c entry" using Cons.prems(2) m by simp
    ultimately show "isEffectSlot c1 entry" by (simp add: isEffectSlot_def)
  qed
  from Cons.IH[OF d eff] obtain c' where
    r: "flushQueue E es c1 = Return c'" and
    rq: "queue c' = (if es = [] then queue c1 else [])" and
    rc: "calls c' = calls c1 @ concat (map (entryCalls c1) es)" and
    rs: "\<forall>entry \<in> set es. slotOf c' entry = slotAfterFlush E (slotOf c1 entry)" and
    ro: "\<forall>entry. entry \<notin> set es \<longrightarrow> slotOf c' entry = slotOf c1 entry"
    by blast
  have same: "\<And>entry. entry \<in> set es \<Longrightarrow> slotOf c1 entry = slotOf c entry"
    using c1o ni by metis
  have ec: "map (entryCalls c1) es = map (entryCalls c) es"
    using same by (simp add: entryCalls_def)
  have "flushQueue E (a # es) c = Return c'" using f r a by (simp add: bindR_def)
  moreover have "queue c' = []" using rq c1q by auto
  moreover have "calls c' = calls c @ concat (map (entryCalls c) (a # es))"
    using rc c1calls ec a s by (simp add: entryCalls_def)
  moreover have "\<forall>entry \<in> set (a # es). slotOf c' entry = slotAfterFlush E (slotOf c entry)"
    using rs ro c1s same ni a s by (auto simp: slotAfterFlush_def)
  moreover have "\<forall>entry. entry \<notin> set (a # es) \<longrightarrow> slotOf c' entry = slotOf c entry"
    using ro c1o a by auto
  ultimately show ?case by auto
qed

text \<open>
  C7.  The flush drains the queue in the order of the entries.  When the entries name
  distinct slots that hold effect hooks and no closure throws, the flush returns with the
  queue empty; the closures called are, entry after entry in queue order, the stored
  cleanup of the slot (if it has one) and then its effect body; and each slot then stores
  the cleanup its body returned, or none.
\<close>

theorem flushEffects_order:
  assumes "distinct (queue c)" and "\<forall>entry \<in> set (queue c). isEffectSlot c entry"
    and "\<forall>k. \<not> cleanupThrows E k" and "\<forall>x. effectBody E x \<noteq> Throws"
  shows "\<exists>c'. flushEffects E c = Return c'
           \<and> queue c' = []
           \<and> calls c' = calls c @ concat (map (entryCalls c) (queue c))
           \<and> (\<forall>entry \<in> set (queue c). slotOf c' entry = slotAfterFlush E (slotOf c entry))"
proof -
  from flushQueue_ok[OF assms] obtain c' where
    "flushQueue E (queue c) c = Return c'"
    "queue c' = (if queue c = [] then queue c else [])"
    "calls c' = calls c @ concat (map (entryCalls c) (queue c))"
    "\<forall>entry \<in> set (queue c). slotOf c' entry = slotAfterFlush E (slotOf c entry)"
    by blast
  then show ?thesis by (auto simp: flushEffects_def)
qed



theorem flushEffects_order_witness:
  "\<exists>c'. flushEffects quietEnv twoEffects = Return c'
        \<and> queue c' = []
        \<and> calls c' = [CleanupCall 7, EffectCall 1, EffectCall 2]
        \<and> slotOf c' (''0'', 0) = HEffect None (Some 8) 1
        \<and> slotOf c' (''0'', 1) = HEffect None None 2"
proof -
  have q: "queue twoEffects = [(''0'', 0), (''0'', 1)]"
    by (simp add: twoEffects_def)
  have s0: "slotOf twoEffects (''0'', 0) = HEffect None (Some 7) 1"
    and s1: "slotOf twoEffects (''0'', 1) = HEffect None None 2"
    by (simp_all add: twoEffects_def slotOf_def currentHooks_def slotAt_def)
  have h1: "distinct (queue twoEffects)" by (simp add: q)
  have h2: "\<forall>entry \<in> set (queue twoEffects). isEffectSlot twoEffects entry"
    using s0 s1 by (simp add: q isEffectSlot_def)
  have h3: "\<forall>k. \<not> cleanupThrows quietEnv k" by (simp add: quietEnv_def)
  have h4: "\<forall>x. effectBody quietEnv x \<noteq> Throws" by (simp add: quietEnv_def)
  have r: "returnedCleanup quietEnv 1 = Some 8" "returnedCleanup quietEnv 2 = None"
    by (simp_all add: returnedCleanup_def quietEnv_def)
  from flushEffects_order [OF h1 h2 h3 h4] s0 s1 r show ?thesis
    by (simp add: q entryCalls_def cleanupCall_def slotAfterFlush_def twoEffects_def
        emptyContext_def)
qed

lemma flushEntry_queue:
  "flushEntry E entry (c\<lparr>queue := q\<rparr>) = mapState (\<lambda>c'. c'\<lparr>queue := q\<rparr>) (flushEntry E entry c)"
  by (auto simp: flushEntry_def mapState_def bindR_def callCleanup_def callEffect_def Let_def
      split: option.splits hval.splits effect_outcome.splits)

lemma flushQueue_nonempty_queue:
  "ys \<noteq> [] \<Longrightarrow> flushQueue E ys (c\<lparr>queue := q\<rparr>) = flushQueue E ys c"
  by (cases ys) auto

lemma flushQueue_append:
  "flushQueue E xs (c\<lparr>queue := q0\<rparr>) = Return c1 \<Longrightarrow> ys \<noteq> [] \<Longrightarrow>
     flushQueue E (xs @ ys) (c\<lparr>queue := q\<rparr>) = flushQueue E ys c1"
proof (induction xs arbitrary: c q q0)
  case Nil
  then show ?case by (cases ys) auto
next
  case (Cons x xs)
  from Cons.prems(1) obtain r where
    r: "flushEntry E x (c\<lparr>queue := xs\<rparr>) = Return r" and rest: "flushQueue E xs r = Return c1"
    by (auto simp: bindR_def split: result.splits)
  from r obtain r0 where r0: "flushEntry E x c = Return r0" and rr: "r = r0\<lparr>queue := xs\<rparr>"
    by (auto simp: flushEntry_queue mapState_def split: result.splits)
  have "flushEntry E x (c\<lparr>queue := xs @ ys\<rparr>) = Return (r0\<lparr>queue := xs @ ys\<rparr>)"
    using r0 by (simp add: flushEntry_queue mapState_def)
  moreover have "flushQueue E (xs @ ys) (r0\<lparr>queue := xs @ ys\<rparr>) = flushQueue E ys c1"
    using Cons.IH[where c=r0 and ?q0.0=xs and q="xs @ ys"] rest rr Cons.prems(2) by simp
  ultimately show ?case by (simp add: bindR_def)
qed

text \<open>
  C8 (as the code has it).  A throw of an effect body is not confined to its entry: when
  the entries before it have run normally and the body of an entry throws (its stored
  cleanup, if any, having returned), the exception leaves \<open>flushEffects\<close>.  The entries
  after it are still in the queue and none of their closures has been called; the slot of
  the thrower keeps its old cleanup.
\<close>

theorem flushEffects_throw_aborts:
  assumes q: "queue c = pre @ entry # post"
    and pre: "flushEffects E (c\<lparr>queue := pre\<rparr>) = Return c1"
    and s: "slotOf c1 entry = HEffect d cl e"
    and t: "effectBody E e = Throws"
    and k: "\<forall>k. cl = Some k \<longrightarrow> \<not> cleanupThrows E k"
  shows "flushEffects E c =
           Raise (Thrown (EffectCall e))
             (c1\<lparr>queue := post, calls := calls c1 @ cleanupCall cl @ [EffectCall e]\<rparr>)"
proof -
  from s obtain hooks where h: "map_of (hstate c1) (fst entry) = Some hooks"
    and i: "snd entry < length hooks" and hi: "hooks ! snd entry = HEffect d cl e"
    by (auto simp: slotOf_def currentHooks_def slotAt_def split: option.splits if_splits)
  have "flushQueue E pre (c\<lparr>queue := pre\<rparr>) = Return c1"
    using pre by (simp add: flushEffects_def)
  then have a: "flushQueue E (pre @ entry # post) (c\<lparr>queue := []\<rparr>) = flushQueue E (entry # post) c1"
    by (rule flushQueue_append) simp
  have b: "flushQueue E (pre @ entry # post) (c\<lparr>queue := []\<rparr>) = flushQueue E (pre @ entry # post) c"
    by (rule flushQueue_nonempty_queue) simp
  have "flushEffects E c = flushQueue E (entry # post) c1"
    unfolding flushEffects_def q using a b by simp
  moreover have "flushEntry E entry (c1\<lparr>queue := post\<rparr>) =
      Raise (Thrown (EffectCall e)) (c1\<lparr>queue := post, calls := calls c1 @ cleanupCall cl @ [EffectCall e]\<rparr>)"
    using h i hi t k
    by (cases cl)
       (auto simp: flushEntry_def slotAt_def bindR_def callCleanup_def callEffect_def Let_def
          cleanupCall_def)
  ultimately show ?thesis by (simp add: bindR_def)
qed

text \<open>The claim as stated fails: the first of two queued bodies throws and the second is
  never called.\<close>

theorem flushEffects_isolation_counterexample:
  "flushEffects throwingEnv twoEffects =
     Raise (Thrown (EffectCall 1))
       (twoEffects\<lparr>queue := [(''0'', 1)], calls := [CleanupCall 7, EffectCall 1]\<rparr>)
   \<and> EffectCall 2 \<notin> set [CleanupCall 7, EffectCall 1]"
  by (simp add: flushEffects_def flushEntry_def twoEffects_def throwingEnv_def emptyContext_def
      slotAt_def bindR_def callCleanup_def callEffect_def Let_def)

theorem flushEffects_throw_aborts_witness:
  "flushEffects throwingEnv twoEffects =
     Raise (Thrown (EffectCall 1))
       (twoEffects\<lparr>queue := [(''0'', 1)], calls := [CleanupCall 7, EffectCall 1]\<rparr>)"
  using flushEffects_throw_aborts [of twoEffects "[]" "(''0'', 0)" "[(''0'', 1)]" throwingEnv
          "twoEffects\<lparr>queue := []\<rparr>" None "Some 7" 1]
  by (simp add: flushEffects_def twoEffects_def throwingEnv_def emptyContext_def slotOf_def
      currentHooks_def slotAt_def cleanupCall_def)

section \<open>Garbage collection of hook state\<close>

lemma bindR_Return_iff:
  "bindR m f = Return y \<longleftrightarrow> (\<exists>x. m = Return x \<and> f x = Return y)"
  by (cases m) (auto simp: bindR_def)

lemma callCleanup_Return:
  "callCleanup E cl c = Return c' \<longleftrightarrow> (\<not> cleanupThrows E cl \<and> c' = c\<lparr>calls := calls c @ [CleanupCall cl]\<rparr>)"
  by (auto simp: callCleanup_def Let_def)

lemma cleanupSlots_Return:
  "cleanupSlots E hs c = Return c' \<Longrightarrow> c' = c\<lparr>calls := calls c @ storedCleanups hs\<rparr>"
proof (induction hs arbitrary: c)
  case Nil
  then show ?case by simp
next
  case (Cons h hs)
  then show ?case
    by (cases h) (auto simp: bindR_Return_iff callCleanup_Return split: option.splits dest!: Cons.IH)
qed

lemma cleanupSlots_total:
  "\<forall>k. CleanupCall k \<in> set (storedCleanups hs) \<longrightarrow> \<not> cleanupThrows E k
     \<Longrightarrow> \<exists>c'. cleanupSlots E hs c = Return c'"
proof (induction hs arbitrary: c)
  case Nil
  then show ?case by simp
next
  case (Cons h hs)
  then show ?case
    by (cases h) (auto simp: bindR_def callCleanup_def Let_def split: option.splits)
qed

lemma cleanupEntries_Return:
  "cleanupEntries E es c = Return c' \<Longrightarrow>
     visited c' = visited c
   \<and> calls c' = calls c @ gcCalls c es
   \<and> hstate c' = filter (\<lambda>(p, hs). p \<notin> set (unvisitedPaths c es)) (hstate c)
   \<and> hcursor c' = (\<lambda>p. if p \<in> set (unvisitedPaths c es) then None else hcursor c p)"
proof (induction es arbitrary: c)
  case Nil
  then show ?case by (simp add: gcCalls_def unvisitedPaths_def)
next
  case (Cons a es)
  obtain path hs where a: "a = (path, hs)" by (cases a)
  show ?case
  proof (cases "path \<in> visited c")
    case True
    with Cons a show ?thesis
      by (simp add: gcCalls_def unvisitedPaths_def)
  next
    case False
    with Cons.prems a obtain c1 where
      c1: "cleanupSlots E hs c = Return c1" and
      rest: "cleanupEntries E es
               (c1\<lparr>hstate := AList.delete path (hstate c1), hcursor := (hcursor c1)(path := None)\<rparr>) = Return c'"
      by (auto simp: bindR_Return_iff)
    from cleanupSlots_Return[OF c1] have c1': "c1 = c\<lparr>calls := calls c @ storedCleanups hs\<rparr>" .
    let ?c2 = "c1\<lparr>hstate := AList.delete path (hstate c1), hcursor := (hcursor c1)(path := None)\<rparr>"
    have v: "visited ?c2 = visited c" using c1' by simp
    from Cons.IH[OF rest] have
      i1: "visited c' = visited ?c2" and
      i2: "calls c' = calls ?c2 @ gcCalls ?c2 es" and
      i3: "hstate c' = filter (\<lambda>(p, hs). p \<notin> set (unvisitedPaths ?c2 es)) (hstate ?c2)" and
      i4: "hcursor c' = (\<lambda>p. if p \<in> set (unvisitedPaths ?c2 es) then None else hcursor ?c2 p)"
      by blast+
    have u: "unvisitedPaths ?c2 es = unvisitedPaths c es" and g: "gcCalls ?c2 es = gcCalls c es"
      using v by (simp_all add: unvisitedPaths_def gcCalls_def)
    have u2: "unvisitedPaths c (a # es) = path # unvisitedPaths c es"
      using a False by (simp add: unvisitedPaths_def)
    have g2: "gcCalls c (a # es) = storedCleanups hs @ gcCalls c es"
      using a False by (simp add: gcCalls_def)
    have "visited c' = visited c" using i1 v by simp
    moreover have "calls c' = calls c @ gcCalls c (a # es)"
      using i2 g g2 c1' by simp
    moreover have "hstate c' = filter (\<lambda>(p, hs). p \<notin> set (unvisitedPaths c (a # es))) (hstate c)"
      unfolding i3 u u2 using c1'
      by (auto simp: AList.delete_eq intro!: filter_cong)
    moreover have "hcursor c' = (\<lambda>p. if p \<in> set (unvisitedPaths c (a # es)) then None else hcursor c p)"
      unfolding i4 u u2 using c1' by (auto simp: fun_eq_iff)
    ultimately show ?thesis by blast
  qed
qed

lemma cleanupEntries_total:
  "\<forall>k. CleanupCall k \<in> set (gcCalls c es) \<longrightarrow> \<not> cleanupThrows E k
     \<Longrightarrow> \<exists>c'. cleanupEntries E es c = Return c'"
proof (induction es arbitrary: c)
  case Nil
  then show ?case by simp
next
  case (Cons a es)
  obtain path hs where a: "a = (path, hs)" by (cases a)
  show ?case
  proof (cases "path \<in> visited c")
    case True
    with Cons a show ?thesis by (simp add: gcCalls_def)
  next
    case False
    have "\<forall>k. CleanupCall k \<in> set (storedCleanups hs) \<longrightarrow> \<not> cleanupThrows E k"
      using Cons.prems a False by (auto simp: gcCalls_def)
    from cleanupSlots_total[OF this] obtain c1 where c1: "cleanupSlots E hs c = Return c1" by blast
    let ?c2 = "c1\<lparr>hstate := AList.delete path (hstate c1), hcursor := (hcursor c1)(path := None)\<rparr>"
    have v: "visited ?c2 = visited c" using cleanupSlots_Return[OF c1] by simp
    then have "gcCalls ?c2 es = gcCalls c es" by (simp add: gcCalls_def)
    then have "\<forall>k. CleanupCall k \<in> set (gcCalls ?c2 es) \<longrightarrow> \<not> cleanupThrows E k"
      using Cons.prems a False by (auto simp: gcCalls_def)
    from Cons.IH[OF this] c1 a False show ?thesis by (auto simp: bindR_def)
  qed
qed

lemma map_of_filter_keys:
  "map_of (filter (\<lambda>(k, v). k \<notin> S) al) p = (if p \<in> S then None else map_of al p)"
  by (induction al) auto

lemma cleanupUnusedHooks_spec:
  assumes "\<forall>k. CleanupCall k \<in> set (gcCalls c (hstate c)) \<longrightarrow> \<not> cleanupThrows E k"
  shows "\<exists>c'. cleanupUnusedHooks E c = Return c'
           \<and> calls c' = calls c @ gcCalls c (hstate c)
           \<and> (\<forall>p. p \<in> fst ` set (hstate c) \<and> p \<notin> visited c \<longrightarrow>
                   map_of (hstate c') p = None \<and> hcursor c' p = None)
           \<and> (\<forall>p. p \<in> visited c \<longrightarrow> map_of (hstate c') p = map_of (hstate c) p)
           \<and> visited c' = {}"
proof -
  from cleanupEntries_total[OF assms] obtain c1 where c1: "cleanupEntries E (hstate c) c = Return c1"
    by blast
  from cleanupEntries_Return[OF c1] have
    f1: "visited c1 = visited c" and
    f2: "calls c1 = calls c @ gcCalls c (hstate c)" and
    f3: "hstate c1 = filter (\<lambda>(p, hs). p \<notin> set (unvisitedPaths c (hstate c))) (hstate c)" and
    f4: "hcursor c1 = (\<lambda>p. if p \<in> set (unvisitedPaths c (hstate c)) then None else hcursor c p)"
    by blast+
  have m: "map_of (hstate c1) p = (if p \<in> set (unvisitedPaths c (hstate c)) then None else map_of (hstate c) p)" for p
    unfolding f3 by (rule map_of_filter_keys)
  have u: "p \<in> set (unvisitedPaths c (hstate c)) \<longleftrightarrow> p \<notin> visited c \<and> p \<in> fst ` set (hstate c)" for p
    by (auto simp: unvisitedPaths_def)
  have gone: "map_of (hstate c1) p = None \<and> hcursor c1 p = None"
    if "p \<in> fst ` set (hstate c)" "p \<notin> visited c" for p
    using that m[of p] u[of p] f4 by auto
  have kept: "map_of (hstate c1) p = map_of (hstate c) p" if "p \<in> visited c" for p
    using that m[of p] u[of p] by auto
  have "cleanupUnusedHooks E c = Return (c1\<lparr>visited := {}\<rparr>)"
    using c1 by (simp add: cleanupUnusedHooks_def bindR_def)
  then show ?thesis using f2 gone kept by auto
qed

lemma useState_fresh:
  assumes "map_of (hstate c) p = None"
  shows "\<exists>c''. useState i (enterComponent p c) = Return ((initialOf i, (p, 0)), c'')"
  using assms
  by (simp add: useState_def enterComponent_def currentPath_def currentCursor_def currentHooks_def
      bindR_def Let_def slotAt_def initialOf_def)

text \<open>
  C6.  A render pass with a root runs \<open>cleanupUnusedHooks\<close> once, on the state the
  reconciler left.  When the reconciler has returned and the cleanups to call do not throw,
  the pass returns, and what it did after the reconciler is exactly: call, in store order
  and each once, the stored cleanup of every effect slot of every path of the store that was
  not marked visited; such a path has no slot sequence and no cursor afterwards, so that a
  component entered at that path gets the initial value from \<open>useState\<close>; the slots of
  visited paths are kept; the marker set is empty again.
\<close>

theorem render_collects_garbage:
  assumes root: "rootContainer c = Some container" "rootNode c = Some node"
    and pass: "reconcile E fuel container (rootInstance c) (Some node) ''0'' None
                 (c\<lparr>hcursor := Map.empty, componentStack := [], queue := []\<rparr>) = Return (newInstance, c2)"
    and quiet: "\<forall>k. CleanupCall k \<in> set (gcCalls c2 (hstate c2)) \<longrightarrow> \<not> cleanupThrows E k"
  shows "\<exists>c'. render E fuel c = Return c'
           \<and> calls c' = calls c2 @ gcCalls c2 (hstate c2)
           \<and> (\<forall>p. p \<in> fst ` set (hstate c2) \<and> p \<notin> visited c2 \<longrightarrow>
                   map_of (hstate c') p = None \<and> hcursor c' p = None
                 \<and> (\<forall>i. \<exists>c''. useState i (enterComponent p c') = Return ((initialOf i, (p, 0)), c'')))
           \<and> (\<forall>p. p \<in> visited c2 \<longrightarrow> map_of (hstate c') p = map_of (hstate c2) p)
           \<and> visited c' = {}"
proof -
  let ?c3 = "c2\<lparr>rootInstance := newInstance\<rparr>"
  have q: "\<forall>k. CleanupCall k \<in> set (gcCalls ?c3 (hstate ?c3)) \<longrightarrow> \<not> cleanupThrows E k"
    using quiet by (simp add: gcCalls_def)
  from cleanupUnusedHooks_spec[OF q] obtain c4 where
    g: "cleanupUnusedHooks E ?c3 = Return c4" and
    g1: "calls c4 = calls ?c3 @ gcCalls ?c3 (hstate ?c3)" and
    g2: "\<forall>p. p \<in> fst ` set (hstate ?c3) \<and> p \<notin> visited ?c3 \<longrightarrow>
              map_of (hstate c4) p = None \<and> hcursor c4 p = None" and
    g3: "\<forall>p. p \<in> visited ?c3 \<longrightarrow> map_of (hstate c4) p = map_of (hstate ?c3) p" and
    g4: "visited c4 = {}"
    by blast
  let ?c' = "enqueue FlushEffectsTask c4"
  have r: "render E fuel c = Return ?c'"
    using root pass g by (simp add: render_def bindR_def)
  have same: "hstate ?c' = hstate c4" "hcursor ?c' = hcursor c4" "calls ?c' = calls c4"
    "visited ?c' = visited c4"
    by (simp_all add: enqueue_def)
  have fresh: "\<forall>i. \<exists>c''. useState i (enterComponent p ?c') = Return ((initialOf i, (p, 0)), c'')"
    if "map_of (hstate c4) p = None" for p
    using useState_fresh[of ?c' p] that same by simp
  show ?thesis
    using r g1 g2 g3 g4 same fresh by (auto simp: gcCalls_def)
qed


theorem render_collects_garbage_witness:
  "\<exists>c'. render quietEnv 1 staleStore = Return c'
        \<and> calls c' = [CleanupCall 7]
        \<and> map_of (hstate c') ''0.c0'' = None
        \<and> hcursor c' ''0.c0'' = None
        \<and> (\<exists>c''. useState (Initial (HNum 0)) (enterComponent ''0.c0'' c') = Return ((HNum 0, (''0.c0'', 0)), c''))
        \<and> visited c' = {}"
proof -
  have root: "rootContainer staleStore = Some 0"
    "rootNode staleStore = Some (VNode TEXT_ELEMENT None [(''nodeValue'', PStr ''hi'')] (Some []))"
    by (simp_all add: staleStore_def emptyContext_def)
  have "\<exists>ni c2. reconcile quietEnv 1 0 (rootInstance staleStore)
                   (Some (VNode TEXT_ELEMENT None [(''nodeValue'', PStr ''hi'')] (Some []))) ''0'' None
                   (staleStore\<lparr>hcursor := Map.empty, componentStack := [], queue := []\<rparr>) = Return (ni, c2)
                 \<and> hstate c2 = [(''0.c0'', [HNum 5, HEffect None (Some 7) 1])]
                 \<and> visited c2 = {} \<and> calls c2 = []"
    by (simp add: staleStore_def emptyContext_def reconcileStep_def mountNode_def mountText_def
        createTextNode_def placeNode_def appendChild_def detach_def logOp_def bindR_def Let_def)
  then obtain ni c2 where
    pass: "reconcile quietEnv 1 0 (rootInstance staleStore)
             (Some (VNode TEXT_ELEMENT None [(''nodeValue'', PStr ''hi'')] (Some []))) ''0'' None
             (staleStore\<lparr>hcursor := Map.empty, componentStack := [], queue := []\<rparr>) = Return (ni, c2)"
    and h: "hstate c2 = [(''0.c0'', [HNum 5, HEffect None (Some 7) 1])]"
    and v: "visited c2 = {}" and k: "calls c2 = []"
    by blast
  have g: "gcCalls c2 (hstate c2) = [CleanupCall 7]"
    by (simp add: gcCalls_def h v)
  have quiet: "\<forall>k. CleanupCall k \<in> set (gcCalls c2 (hstate c2)) \<longrightarrow> \<not> cleanupThrows quietEnv k"
    by (simp add: quietEnv_def)
  have m: "''0.c0'' \<in> fst ` set (hstate c2) \<and> ''0.c0'' \<notin> visited c2"
    by (simp add: h v)
  from render_collects_garbage [OF root pass quiet] obtain c' where
    r: "render quietEnv 1 staleStore = Return c'" and
    r1: "calls c' = calls c2 @ gcCalls c2 (hstate c2)" and
    r2: "\<forall>p. p \<in> fst ` set (hstate c2) \<and> p \<notin> visited c2 \<longrightarrow>
           map_of (hstate c') p = None \<and> hcursor c' p = None
         \<and> (\<forall>i. \<exists>c''. useState i (enterComponent p c') = Return ((initialOf i, (p, 0)), c''))" and
    r3: "visited c' = {}"
    by blast
  from r2 m have r4: "map_of (hstate c') ''0.c0'' = None" "hcursor c' ''0.c0'' = None"
    "\<exists>c''. useState (Initial (HNum 0)) (enterComponent ''0.c0'' c')
             = Return ((initialOf (Initial (HNum 0)), (''0.c0'', 0)), c'')"
    by blast+
  have "calls c' = [CleanupCall 7]" unfolding r1 g k by simp
  with r r3 r4 show ?thesis by (auto simp: initialOf_def)
qed

section \<open>Result of reconcile\<close>










section \<open>Matching of unkeyed children\<close>

lemma showNat_digit [simp]: "n < 10 \<Longrightarrow> showNat n = [digitChar n]"
  by (simp add: showNat.simps)

text \<open>
  C4.  The two-stage rule is what \<open>updateHost\<close> does; \<open>updateFragment\<close> has the first
  stage only.  Previous children: one unkeyed \<open>span\<close> at path \<open>0.cspan_0\<close>; next children: a
  \<open>div\<close>, then a \<open>span\<close>, both unkeyed.  No previous child has the path \<open>0.cspan_1\<close> of the
  second slot.  The fragment update leaves the slot unmatched, the host update matches it to
  the previous \<open>span\<close> by type.
\<close>

theorem updateFragment_no_type_stage:
  "fst (matchFragmentChildren ''0'' oneSpan (buildKeyedMap oneSpan) {}
          (enumerate1 [hostNode ''div'' [], hostNode ''span'' []])) = [None, None]
   \<and> fst (matchHostChildren ''0'' oneSpan (buildKeyedMap oneSpan) 1 {}
          (enumerate1 [hostNode ''div'' [], hostNode ''span'' []])) = [None, Some 0]"
  by (simp add: oneSpan_def hostNode_def buildKeyedMap_def enumerate1_def matchFragmentChild_def
      matchHostChild_def findByPath_def createChildPath_def matchByType_def candidates_def
      isCandidate_def lastCandidate_def nearestCandidate_def digitChar_def Let_def upt_rec)

end
